theory Spec2Isabelle
  imports Main "HOL-Library.Word" "HOL-Library.AList"
begin

unbundle bit_operations_syntax

section \<open>JavaScript values shared by the examples\<close>

text \<open>
  The information the rate limiter attaches to its result and to its error
  (\<^verbatim>\<open>rateLimitInfo\<close> in \<^verbatim>\<open>check\<close>).
\<close>

record rate_limit_info =
  info_limit :: int
  info_remaining :: int
  info_reset :: int

text \<open>
  A thrown value is an error object. The examples read four of its properties:
  \<^verbatim>\<open>message\<close>, \<^verbatim>\<open>status\<close>, \<^verbatim>\<open>code\<close> and \<^verbatim>\<open>rateLimit\<close>; a property that
  was never set reads as \<^verbatim>\<open>undefined\<close>, which is \<open>None\<close> here.
\<close>

record js_error =
  err_name :: string
  err_message :: string
  err_status :: "int option"
  err_code :: "string option"
  err_rateLimit :: "rate_limit_info option"

definition new_Error :: "string \<Rightarrow> js_error" where
  "new_Error msg =
     \<lparr>err_name = ''Error'', err_message = msg, err_status = None, err_code = None,
      err_rateLimit = None\<rparr>"

definition TypeError :: "string \<Rightarrow> js_error" where
  "TypeError msg = (new_Error msg)\<lparr>err_name := ''TypeError''\<rparr>"

definition ReferenceError :: "string \<Rightarrow> js_error" where
  "ReferenceError msg = (new_Error msg)\<lparr>err_name := ''ReferenceError''\<rparr>"

text \<open>\<^verbatim>\<open>x || d\<close> on a number that may be \<^verbatim>\<open>undefined\<close>: 0 and \<^verbatim>\<open>undefined\<close> are falsy.\<close>

definition num_or :: "int option \<Rightarrow> int \<Rightarrow> int" where
  "num_or x d = (case x of None \<Rightarrow> d | Some v \<Rightarrow> if v = 0 then d else v)"

text \<open>\<^verbatim>\<open>Math.ceil(x / 1000)\<close> on integers.\<close>

definition ceil_div_1000 :: "int \<Rightarrow> int" where
  "ceil_div_1000 x = - ((- x) div 1000)"

section \<open>The rate limiter (rate-limit.js)\<close>

subsection \<open>The token cache\<close>

text \<open>
  \<^verbatim>\<open>rateLimit\<close> keeps its counts in an \<^verbatim>\<open>LRUCache\<close> of the package lru-cache, created
  with \<^verbatim>\<open>max\<close> and \<^verbatim>\<open>ttl\<close>. The package is not part of the repository; the cache is
  modelled as the package documents it. \<^verbatim>\<open>get\<close> returns the stored value unless the
  entry is absent or older than its time to live, \<^verbatim>\<open>set\<close> stores a value with a
  fresh time to live and evicts the least recently used entries beyond \<^verbatim>\<open>max\<close>. A
  \<^verbatim>\<open>ttl\<close> of 0 means that entries do not expire, a \<^verbatim>\<open>max\<close> of 0 that their number is
  not bounded. The entries are kept most recently used first.
\<close>

record cache_entry =
  entry_value :: int
  entry_expires :: "int option"

record lru_cache =
  cache_max :: nat
  cache_ttl :: int
  cache_entries :: "(string \<times> cache_entry) list"

definition cache_remove :: "string \<Rightarrow> (string \<times> cache_entry) list \<Rightarrow> (string \<times> cache_entry) list" where
  "cache_remove k es = filter (\<lambda>p. fst p \<noteq> k) es"

definition is_stale :: "cache_entry \<Rightarrow> int \<Rightarrow> bool" where
  "is_stale e now = (case entry_expires e of None \<Rightarrow> False | Some t \<Rightarrow> t < now)"

definition cache_get :: "lru_cache \<Rightarrow> int \<Rightarrow> string \<Rightarrow> int option \<times> lru_cache" where
  "cache_get c now k =
     (case map_of (cache_entries c) k of
        None \<Rightarrow> (None, c)
      | Some e \<Rightarrow>
          if is_stale e now
          then (None, c\<lparr>cache_entries := cache_remove k (cache_entries c)\<rparr>)
          else (Some (entry_value e),
                c\<lparr>cache_entries := (k, e) # cache_remove k (cache_entries c)\<rparr>))"

definition cache_set :: "lru_cache \<Rightarrow> int \<Rightarrow> string \<Rightarrow> int \<Rightarrow> lru_cache" where
  "cache_set c now k v =
     c\<lparr>cache_entries :=
         (let expires = (if cache_ttl c = 0 then None else Some (now + cache_ttl c));
              es = (k, \<lparr>entry_value = v, entry_expires = expires\<rparr>)
                   # cache_remove k (cache_entries c)
          in if cache_max c = 0 then es else take (cache_max c) es)\<rparr>"

text \<open>
  The example also calls \<^verbatim>\<open>tokenCache.getTtl(token)\<close>. The class \<^verbatim>\<open>LRUCache\<close> has no
  method of that name (its method for the remaining time is \<^verbatim>\<open>getRemainingTTL\<close>): the
  property \<^verbatim>\<open>getTtl\<close> of a cache is \<^verbatim>\<open>undefined\<close>, here \<open>None\<close>, and calling it
  throws a TypeError.
\<close>

definition LRUCache_getTtl :: "(lru_cache \<Rightarrow> string \<Rightarrow> int option) option" where
  "LRUCache_getTtl = None"

subsection \<open>rateLimit, check and getStatus\<close>

record rate_limit_options =
  opt_interval :: "int option"
  opt_maxRequests :: "int option"
  opt_uniqueTokenPerInterval :: "nat option"

text \<open>
  The closure of one \<^verbatim>\<open>rateLimit\<close> call: the destructured options and the cache that
  \<^verbatim>\<open>check\<close>, \<^verbatim>\<open>getStatus\<close> and \<^verbatim>\<open>reset\<close> share.
\<close>

record limiter =
  interval :: int
  maxRequests :: int
  tokenCache :: lru_cache

text \<open>
  \<^verbatim>\<open>rateLimit(options)\<close>. The constructor of the cache throws a TypeError when the
  \<^verbatim>\<open>ttl\<close> is negative, and when neither a \<^verbatim>\<open>max\<close> nor a \<^verbatim>\<open>ttl\<close> is given.
\<close>

definition rateLimit :: "rate_limit_options \<Rightarrow> js_error + limiter" where
  "rateLimit options =
     (let interval = (case opt_interval options of None \<Rightarrow> 60 * 1000 | Some v \<Rightarrow> v);
          maxRequests = (case opt_maxRequests options of None \<Rightarrow> 10 | Some v \<Rightarrow> v);
          uniqueTokenPerInterval =
            (case opt_uniqueTokenPerInterval options of None \<Rightarrow> 500 | Some v \<Rightarrow> v)
      in if interval < 0
         then Inl (TypeError ''ttl must be a positive integer if specified'')
         else if uniqueTokenPerInterval = 0 \<and> interval = 0
         then Inl (TypeError ''At least one of max, maxSize, or ttl is required'')
         else Inr \<lparr>interval = interval, maxRequests = maxRequests,
                   tokenCache = \<lparr>cache_max = uniqueTokenPerInterval, cache_ttl = interval,
                                 cache_entries = []\<rparr>\<rparr>)"

text \<open>The instances that the module exports: the limiters that these calls return.\<close>

definition globalLimiter :: limiter where
  "globalLimiter =
     projr (rateLimit \<lparr>opt_interval = Some (60 * 1000), opt_maxRequests = Some 60,
                       opt_uniqueTokenPerInterval = None\<rparr>)"

definition authLimiter :: limiter where
  "authLimiter =
     projr (rateLimit \<lparr>opt_interval = Some (60 * 1000), opt_maxRequests = Some 5,
                       opt_uniqueTokenPerInterval = None\<rparr>)"

definition sensitiveApiLimiter :: limiter where
  "sensitiveApiLimiter =
     projr (rateLimit \<lparr>opt_interval = Some (60 * 1000), opt_maxRequests = Some 10,
                       opt_uniqueTokenPerInterval = None\<rparr>)"

record check_result = rate_limit_info +
  success :: bool

text \<open>
  \<^verbatim>\<open>check(limit, token)\<close> at the time \<open>now\<close> (\<^verbatim>\<open>Date.now()\<close>). The result is the
  thrown error or the returned object, together with the limiter after the call. The
  statements run in the order of the source: the count is read with \<^verbatim>\<open>get\<close>, then
  \<^verbatim>\<open>getTtl\<close> is called, and only then the new count is stored with \<^verbatim>\<open>set\<close> and
  compared with the limit.
\<close>

definition check :: "limiter \<Rightarrow> int \<Rightarrow> int option \<Rightarrow> string \<Rightarrow> (js_error + check_result) \<times> limiter" where
  "check lim now limit token =
     (let maxRequestsForToken = num_or limit (maxRequests lim);
          (got, c1) = cache_get (tokenCache lim) now token;
          tokenCount = num_or got 0 + 1;
          currentTime = now
      in case LRUCache_getTtl of
           None \<Rightarrow>
             (Inl (TypeError ''tokenCache.getTtl is not a function''), lim\<lparr>tokenCache := c1\<rparr>)
         | Some getTtl \<Rightarrow>
             (let ttl = num_or (getTtl c1 token) (currentTime + interval lim);
                  reset = ceil_div_1000 (ttl - currentTime);
                  c2 = cache_set c1 now token tokenCount;
                  remaining = max 0 (maxRequestsForToken - tokenCount)
              in if tokenCount > maxRequestsForToken
                 then (Inl ((new_Error ''Rate limit exceeded'')
                              \<lparr>err_status := Some 429,
                               err_rateLimit := Some \<lparr>info_limit = maxRequestsForToken,
                                                       info_remaining = remaining,
                                                       info_reset = reset\<rparr>\<rparr>),
                       lim\<lparr>tokenCache := c2\<rparr>)
                 else (Inr \<lparr>info_limit = maxRequestsForToken, info_remaining = remaining,
                            info_reset = reset, success = True\<rparr>,
                       lim\<lparr>tokenCache := c2\<rparr>)))"

record status_info = rate_limit_info +
  exceeded :: bool

text \<open>
  \<^verbatim>\<open>getStatus(token, limit = maxRequests)\<close>: the default applies when the argument is
  \<^verbatim>\<open>undefined\<close>. It calls \<^verbatim>\<open>getTtl\<close> after \<^verbatim>\<open>get\<close> as \<^verbatim>\<open>check\<close> does.
\<close>

definition getStatus ::
  "limiter \<Rightarrow> int \<Rightarrow> string \<Rightarrow> int option \<Rightarrow> (js_error + status_info) \<times> limiter" where
  "getStatus lim now token limit_arg =
     (let limit = (case limit_arg of None \<Rightarrow> maxRequests lim | Some l \<Rightarrow> l);
          (got, c1) = cache_get (tokenCache lim) now token;
          tokenCount = num_or got 0;
          currentTime = now
      in case LRUCache_getTtl of
           None \<Rightarrow>
             (Inl (TypeError ''tokenCache.getTtl is not a function''), lim\<lparr>tokenCache := c1\<rparr>)
         | Some getTtl \<Rightarrow>
             (let ttl = num_or (getTtl c1 token) (currentTime + interval lim);
                  reset = ceil_div_1000 (ttl - currentTime)
              in (Inr \<lparr>info_limit = limit, info_remaining = max 0 (limit - tokenCount),
                       info_reset = reset, exceeded = (tokenCount \<ge> limit)\<rparr>,
                  lim\<lparr>tokenCache := c1\<rparr>)))"

text \<open>The count stored for a token: what \<^verbatim>\<open>tokenCache.get(token) || 0\<close> reads.\<close>

definition stored_count :: "limiter \<Rightarrow> int \<Rightarrow> string \<Rightarrow> int" where
  "stored_count lim now token = num_or (fst (cache_get (tokenCache lim) now token)) 0"

text \<open>
  The limiter after a sequence of \<^verbatim>\<open>check\<close> calls for one token, each with its time
  and its limit.
\<close>

definition checks :: "limiter \<Rightarrow> (int \<times> int option) list \<Rightarrow> string \<Rightarrow> limiter" where
  "checks lim calls token = foldl (\<lambda>l c. snd (check l (fst c) (snd c) token)) lim calls"

subsection \<open>withRateLimit\<close>

record request =
  req_x_forwarded_for :: "string option"
  req_ip :: "string option"

text \<open>\<^verbatim>\<open>s || d\<close> on a string that may be \<^verbatim>\<open>undefined\<close>: the empty string is falsy.\<close>

definition str_or :: "string option \<Rightarrow> string \<Rightarrow> string" where
  "str_or x d = (case x of None \<Rightarrow> d | Some s \<Rightarrow> if s = [] then d else s)"

record error_body =
  body_error :: string
  body_message :: string
  body_retryAfter :: "int option"

text \<open>
  The response object \<^verbatim>\<open>res\<close>: the headers set with \<^verbatim>\<open>setHeader\<close>, the status set
  with \<^verbatim>\<open>status\<close> and the body sent with \<^verbatim>\<open>json\<close>.
\<close>

record response =
  res_headers :: "(string \<times> int) list"
  res_status :: "int option"
  res_body :: "error_body option"

definition setHeader :: "string \<Rightarrow> int \<Rightarrow> response \<Rightarrow> response" where
  "setHeader name v res =
     res\<lparr>res_headers := filter (\<lambda>p. fst p \<noteq> name) (res_headers res) @ [(name, v)]\<rparr>"

definition status_json :: "int \<Rightarrow> error_body \<Rightarrow> response \<Rightarrow> response" where
  "status_json code body res = res\<lparr>res_status := Some code, res_body := Some body\<rparr>"

text \<open>
  The \<^verbatim>\<open>keyGenerator\<close> option is a function of the request, which may throw, or any
  other value, which is then the token itself.
\<close>

datatype key_generator = KeyFunction "request \<Rightarrow> js_error + string" | KeyValue string

record wrap_options =
  wo_keyGenerator :: "key_generator option"
  wo_limit :: "int option"
  wo_headers :: "bool option"

definition default_keyGenerator :: "request \<Rightarrow> js_error + string" where
  "default_keyGenerator req =
     Inr (str_or (req_x_forwarded_for req) (str_or (req_ip req) ''anonymous''))"

text \<open>
  \<^verbatim>\<open>withRateLimit\<close> is an arrow function in the object literal that \<^verbatim>\<open>rateLimit\<close>
  returns, and the function it returns is an arrow function too: \<^verbatim>\<open>this\<close> in
  \<^verbatim>\<open>this.check(limit, token)\<close> is the \<^verbatim>\<open>this\<close> of the enclosing \<^verbatim>\<open>rateLimit\<close>
  call, not the returned object. The model takes that value as a parameter: it is
  \<^verbatim>\<open>undefined\<close> for a plain call \<^verbatim>\<open>rateLimit(options)\<close> in a module, as for the
  exported \<^verbatim>\<open>globalLimiter\<close>, \<^verbatim>\<open>authLimiter\<close> and \<^verbatim>\<open>sensitiveApiLimiter\<close>, or
  an object whose \<^verbatim>\<open>check\<close> property may be a method.
\<close>

type_synonym check_method =
  "limiter \<Rightarrow> int \<Rightarrow> int option \<Rightarrow> string \<Rightarrow> (js_error + check_result) \<times> limiter"

datatype this_value = ThisUndefined | ThisObject "check_method option"

definition module_call_this :: this_value where
  "module_call_this = ThisUndefined"

datatype 'r wrapped = FromHandler 'r | FromJson

text \<open>
  What a call \<^verbatim>\<open>handler(req, res)\<close> that is not awaited returns: a value (or a promise
  that is fulfilled with it), or a promise that is rejected. The rate limiter returns
  the handler's result without awaiting it, so a handler is a function that throws
  (\<open>Inl\<close>) or returns one of the two.
\<close>

datatype 'r returned = Value 'r | RejectedPromise js_error

type_synonym 'r route_handler = "request \<Rightarrow> response \<Rightarrow> (js_error + 'r returned) \<times> response"

text \<open>
  The body of the \<^verbatim>\<open>try\<close> block: the error thrown inside it, or what
  \<^verbatim>\<open>return handler(req, res)\<close> returns.
\<close>

definition withRateLimit_try ::
  "this_value \<Rightarrow> limiter \<Rightarrow> 'r route_handler \<Rightarrow> wrap_options \<Rightarrow> request \<Rightarrow> response \<Rightarrow> int
     \<Rightarrow> (js_error + 'r returned) \<times> response \<times> limiter" where
  "withRateLimit_try this lim handler options req res now =
     (let keyGenerator = (case wo_keyGenerator options of
                            None \<Rightarrow> KeyFunction default_keyGenerator | Some g \<Rightarrow> g);
          limit = (case wo_limit options of None \<Rightarrow> maxRequests lim | Some l \<Rightarrow> l);
          headers = (case wo_headers options of None \<Rightarrow> True | Some h \<Rightarrow> h)
      in case (case keyGenerator of KeyFunction f \<Rightarrow> f req | KeyValue v \<Rightarrow> Inr v) of
           Inl e \<Rightarrow> (Inl e, res, lim)
         | Inr token \<Rightarrow>
             (case this of
                ThisUndefined \<Rightarrow>
                  (Inl (TypeError ''Cannot read properties of undefined (reading check)''),
                   res, lim)
              | ThisObject None \<Rightarrow> (Inl (TypeError ''this.check is not a function''), res, lim)
              | ThisObject (Some this_check) \<Rightarrow>
                  (case this_check lim now (Some limit) token of
                     (Inl e, lim') \<Rightarrow> (Inl e, res, lim')
                   | (Inr result, lim') \<Rightarrow>
                       (let res' =
                          (if headers
                           then setHeader ''X-RateLimit-Reset'' (info_reset result)
                                  (setHeader ''X-RateLimit-Remaining'' (info_remaining result)
                                     (setHeader ''X-RateLimit-Limit'' (info_limit result) res))
                           else res)
                        in case handler req res' of
                             (Inl e, res'') \<Rightarrow> (Inl e, res'', lim')
                           | (Inr r, res'') \<Rightarrow> (Inr r, res'', lim')))))"

text \<open>
  The wrapped handler with its \<^verbatim>\<open>catch\<close> block. A promise that the handler returned
  rejected passes the \<^verbatim>\<open>catch\<close> block by: the wrapped handler rejects with its error.
  The constant \<^verbatim>\<open>headers\<close> is declared by the destructuring inside the \<^verbatim>\<open>try\<close>
  block, so it is out of scope in the \<^verbatim>\<open>catch\<close> block, and neither \<^verbatim>\<open>rateLimit\<close> nor
  the module declares another: the branch for status 429 starts by evaluating
  \<^verbatim>\<open>headers && error.rateLimit\<close>, which throws a ReferenceError out of the wrapped
  handler before any response is sent.
\<close>

definition withRateLimit ::
  "this_value \<Rightarrow> limiter \<Rightarrow> 'r route_handler \<Rightarrow> wrap_options \<Rightarrow> request \<Rightarrow> response \<Rightarrow> int
     \<Rightarrow> (js_error + 'r wrapped) \<times> response \<times> limiter" where
  "withRateLimit this lim handler options req res now =
     (case withRateLimit_try this lim handler options req res now of
        (Inr (Value v), res', lim') \<Rightarrow> (Inr (FromHandler v), res', lim')
      | (Inr (RejectedPromise e), res', lim') \<Rightarrow> (Inl e, res', lim')
      | (Inl error, res', lim') \<Rightarrow>
          if err_status error = Some 429
          then (Inl (ReferenceError ''headers is not defined''), res', lim')
          else (Inr FromJson,
                status_json 500
                  \<lparr>body_error = ''Internal Server Error'',
                   body_message = ''An unexpected error occurred'',
                   body_retryAfter = None\<rparr> res',
                lim'))"

section \<open>CSRF protection (csrf-protection.js)\<close>

text \<open>
  A handler that is awaited: the error it throws or rejects with, or its result.
\<close>

type_synonym 'r handler = "request \<Rightarrow> response \<Rightarrow> (js_error + 'r) \<times> response"

text \<open>
  \<^verbatim>\<open>withCsrfApiRoute(handler)\<close>. The CSRF middleware and the session wrapper come from
  third-party libraries and are parameters: \<open>csrfMiddleware\<close> resolves or rejects and may
  write to the response, \<open>withIronSessionApiRoute\<close> turns the handler into the
  session-wrapped handler. Both awaits are inside the \<^verbatim>\<open>try\<close> block, so the
  \<^verbatim>\<open>catch\<close> block receives the rejections of the middleware and of the session-wrapped
  handler alike, and answers both with \<^verbatim>\<open>res.status(...).json(...)\<close>. The third
  component of the result records whether \<^verbatim>\<open>withSession(req, res)\<close> was called.
\<close>

definition csrf_catch :: "js_error \<Rightarrow> response \<Rightarrow> response" where
  "csrf_catch error res =
     (if err_code error = Some ''CSRF_TOKEN_INVALID''
      then status_json 403
             \<lparr>body_error = ''Invalid CSRF token'',
              body_message = ''CSRF validation failed. Please try again.'',
              body_retryAfter = None\<rparr> res
      else status_json 500
             \<lparr>body_error = ''Internal server error'',
              body_message = ''An unexpected error occurred'',
              body_retryAfter = None\<rparr> res)"

definition withCsrfApiRoute ::
  "(request \<Rightarrow> response \<Rightarrow> (js_error + unit) \<times> response) \<Rightarrow> ('r handler \<Rightarrow> 'r handler)
     \<Rightarrow> 'r handler \<Rightarrow> request \<Rightarrow> response \<Rightarrow> (js_error + 'r wrapped) \<times> response \<times> bool" where
  "withCsrfApiRoute csrfMiddleware withIronSessionApiRoute handler req res =
     (let withSession = withIronSessionApiRoute handler
      in case csrfMiddleware req res of
           (Inl error, res1) \<Rightarrow> (Inr FromJson, csrf_catch error res1, False)
         | (Inr _, res1) \<Rightarrow>
             (case withSession req res1 of
                (Inl error, res2) \<Rightarrow> (Inr FromJson, csrf_catch error res2, True)
              | (Inr v, res2) \<Rightarrow> (Inr (FromHandler v), res2, True)))"

text \<open>
  A middleware that accepts every request, a session wrapper that calls the handler as
  it is, a handler that throws, and an empty request and response to run them on.
\<close>

definition csrf_accepts :: "request \<Rightarrow> response \<Rightarrow> (js_error + unit) \<times> response" where
  "csrf_accepts req res = (Inr (), res)"

definition csrf_rejects :: "request \<Rightarrow> response \<Rightarrow> (js_error + unit) \<times> response" where
  "csrf_rejects req res =
     (Inl ((new_Error ''invalid csrf token'')\<lparr>err_code := Some ''CSRF_TOKEN_INVALID''\<rparr>), res)"

definition plain_session :: "'r handler \<Rightarrow> 'r handler" where
  "plain_session handler = handler"

definition throwing_handler :: "string handler" where
  "throwing_handler req res = (Inl (new_Error ''database unavailable''), res)"

definition ok_handler :: "string handler" where
  "ok_handler req res = (Inr ''done'', res\<lparr>res_status := Some 200\<rparr>)"

definition empty_request :: request where
  "empty_request = \<lparr>req_x_forwarded_for = None, req_ip = None\<rparr>"

definition empty_response :: response where
  "empty_response = \<lparr>res_headers = [], res_status = None, res_body = None\<rparr>"

section \<open>Property lookup on plain objects\<close>

text \<open>
  \<^verbatim>\<open>obj[key]\<close> on an object literal (or on the result of \<^verbatim>\<open>JSON.parse\<close>) finds the
  object's own property first and the members of \<^verbatim>\<open>Object.prototype\<close> next. The
  inherited members are functions, or the prototype object itself for \<^verbatim>\<open>__proto__\<close>:
  all truthy, none of them an array or a configuration.
\<close>

definition Object_prototype_keys :: "string list" where
  "Object_prototype_keys =
     [''constructor'', ''__proto__'', ''hasOwnProperty'', ''isPrototypeOf'',
      ''propertyIsEnumerable'', ''toLocaleString'', ''toString'', ''valueOf'',
      ''__defineGetter__'', ''__defineSetter__'', ''__lookupGetter__'',
      ''__lookupSetter__'']"

datatype 'a property = Own 'a | Inherited string | Absent

definition get_property :: "(string \<times> 'a) list \<Rightarrow> string \<Rightarrow> 'a property" where
  "get_property obj key =
     (case map_of obj key of
        Some v \<Rightarrow> Own v
      | None \<Rightarrow> if key \<in> set Object_prototype_keys then Inherited key else Absent)"

text \<open>\<^verbatim>\<open>s.includes(p)\<close> and \<^verbatim>\<open>s.endsWith(p)\<close> on strings.\<close>

fun starts_with :: "string \<Rightarrow> string \<Rightarrow> bool" where
  "starts_with s [] = True"
| "starts_with [] (p # ps) = False"
| "starts_with (c # cs) (p # ps) = (c = p \<and> starts_with cs ps)"

fun str_includes :: "string \<Rightarrow> string \<Rightarrow> bool" where
  "str_includes [] p = (p = [])"
| "str_includes (c # cs) p = (starts_with (c # cs) p \<or> str_includes cs p)"

definition endsWith :: "string \<Rightarrow> string \<Rightarrow> bool" where
  "endsWith s p = (length p \<le> length s \<and> drop (length s - length p) s = p)"

section \<open>Certificate pinning (certificate-pinning.js)\<close>

record pin_config =
  includeSubdomains :: bool
  certs :: "string list"

definition PINNED_DOMAINS :: "(string \<times> pin_config) list" where
  "PINNED_DOMAINS =
     [(''api.example.com'',
       \<lparr>includeSubdomains = True,
        certs = [''sha256/AAAAAAAAAAAAAAAAAAAAAAAAAAAAAAAAAAAAAAAAAAA='',
                 ''sha256/BBBBBBBBBBBBBBBBBBBBBBBBBBBBBBBBBBBBBBBBBBB='']\<rparr>),
      (''auth.example.com'',
       \<lparr>includeSubdomains = False,
        certs = [''sha256/CCCCCCCCCCCCCCCCCCCCCCCCCCCCCCCCCCCCCCCCCCC='']\<rparr>)]"

definition DEFAULT_TIMEOUT :: int where
  "DEFAULT_TIMEOUT = 30000"

text \<open>
  The loop of \<^verbatim>\<open>findPinnedDomain\<close> over \<^verbatim>\<open>Object.entries(PINNED_DOMAINS)\<close>: the first
  entry with \<^verbatim>\<open>includeSubdomains\<close> whose name, after a dot, ends the domain.
\<close>

fun find_subdomain_match :: "(string \<times> pin_config) list \<Rightarrow> string \<Rightarrow> pin_config option" where
  "find_subdomain_match [] domain = None"
| "find_subdomain_match ((pinnedDomain, config) # rest) domain =
     (if includeSubdomains config \<and> endsWith domain (''.'' @ pinnedDomain)
      then Some config
      else find_subdomain_match rest domain)"

text \<open>
  \<^verbatim>\<open>findPinnedDomain(domain)\<close>. The direct match is \<^verbatim>\<open>PINNED_DOMAINS[domain]\<close>, tested
  for truthiness and returned: an own entry, or a member inherited from
  \<^verbatim>\<open>Object.prototype\<close>, which the caller then reads as a configuration.
\<close>

definition findPinnedDomain :: "string \<Rightarrow> pin_config property" where
  "findPinnedDomain domain =
     (case get_property PINNED_DOMAINS domain of
        Own config \<Rightarrow> Own config
      | Inherited m \<Rightarrow> Inherited m
      | Absent \<Rightarrow>
          (case find_subdomain_match PINNED_DOMAINS domain of
             Some config \<Rightarrow> Own config
           | None \<Rightarrow> Absent))"

datatype platform = IOS | Android

record fetch_options =
  fo_method :: "string option"
  fo_headers :: "(string \<times> string) list option"
  fo_body :: "string option"

text \<open>The second argument of the plain \<^verbatim>\<open>fetch\<close>: \<^verbatim>\<open>{...options, timeout}\<close>.\<close>

record plain_fetch_options = fetch_options +
  pf_timeout :: int

text \<open>
  The second argument of the pinning library's \<^verbatim>\<open>fetch\<close>. Reading \<^verbatim>\<open>certs\<close> or
  \<^verbatim>\<open>includeSubdomains\<close> from an inherited member gives \<^verbatim>\<open>undefined\<close>; the
  \<^verbatim>\<open>trustkit\<close> entry is spread in on Android only.
\<close>

record pinning_options =
  po_method :: string
  po_timeoutInterval :: int
  po_headers :: "(string \<times> string) list"
  po_body :: "string option"
  po_sslPinning_certs :: "string list option"
  po_trustkit_includeSubdomains :: "bool option option"

text \<open>
  A response of the plain \<^verbatim>\<open>fetch\<close>: its content type header and what its
  \<^verbatim>\<open>json()\<close>, \<^verbatim>\<open>text()\<close> and \<^verbatim>\<open>blob()\<close> methods resolve or reject with.
\<close>

record 'd fetch_response =
  fr_content_type :: "string option"
  fr_json :: "js_error + 'd"
  fr_text :: "js_error + 'd"
  fr_blob :: "js_error + 'd"

definition processResponse :: "'d fetch_response \<Rightarrow> js_error + 'd" where
  "processResponse response =
     (let contentType = str_or (fr_content_type response) []
      in if str_includes contentType ''application/json'' then fr_json response
         else if str_includes contentType ''text/'' then fr_text response
         else fr_blob response)"

text \<open>
  What \<^verbatim>\<open>secureFetch\<close> calls: the network state, the URL parser, the plain
  \<^verbatim>\<open>fetch\<close> and the pinning library's \<^verbatim>\<open>fetch\<close>. Each may throw or reject.
\<close>

record ('d, 's) fetch_env =
  env_platform :: platform
  env_isConnected :: "js_error + bool"
  env_hostname :: "string \<Rightarrow> js_error + string"
  env_fetch :: "string \<Rightarrow> plain_fetch_options \<Rightarrow> js_error + 'd fetch_response"
  env_sslPinningFetch :: "string \<Rightarrow> pinning_options \<Rightarrow> js_error + 's"

datatype ('d, 's) fetched = Processed 'd | PinnedResponse 's

text \<open>The body of the \<^verbatim>\<open>try\<close> block of \<^verbatim>\<open>secureFetch\<close>.\<close>

definition secureFetch_try ::
  "('d, 's) fetch_env \<Rightarrow> string \<Rightarrow> fetch_options \<Rightarrow> int \<Rightarrow> js_error + ('d, 's) fetched" where
  "secureFetch_try env url options timeout =
     (case env_isConnected env of
        Inl e \<Rightarrow> Inl e
      | Inr isConnected \<Rightarrow>
          if \<not> isConnected then Inl (new_Error ''No internet connection'')
          else
            (case env_hostname env url of
               Inl e \<Rightarrow> Inl e
             | Inr domain \<Rightarrow>
                 (let pinnedDomain = findPinnedDomain domain
                  in if pinnedDomain = Absent
                     then
                       (case env_fetch env url
                               \<lparr>fo_method = fo_method options, fo_headers = fo_headers options,
                                fo_body = fo_body options, pf_timeout = timeout\<rparr> of
                          Inl e \<Rightarrow> Inl e
                        | Inr response \<Rightarrow>
                            (case processResponse response of
                               Inl e \<Rightarrow> Inl e
                             | Inr d \<Rightarrow> Inr (Processed d)))
                     else
                       (let pinningOptions =
                              \<lparr>po_method = str_or (fo_method options) ''GET'',
                               po_timeoutInterval = timeout,
                               po_headers = (case fo_headers options of None \<Rightarrow> [] | Some h \<Rightarrow> h),
                               po_body = fo_body options,
                               po_sslPinning_certs =
                                 (case pinnedDomain of Own config \<Rightarrow> Some (certs config)
                                  | _ \<Rightarrow> None),
                               po_trustkit_includeSubdomains =
                                 (case env_platform env of
                                    Android \<Rightarrow>
                                      Some (case pinnedDomain of
                                              Own config \<Rightarrow> Some (includeSubdomains config)
                                            | _ \<Rightarrow> None)
                                  | IOS \<Rightarrow> None)\<rparr>
                        in case env_sslPinningFetch env url pinningOptions of
                             Inl e \<Rightarrow> Inl e
                           | Inr response \<Rightarrow> Inr (PinnedResponse response)))))"

text \<open>
  \<^verbatim>\<open>secureFetch(url, options = {}, timeout = DEFAULT_TIMEOUT)\<close> with its
  \<^verbatim>\<open>catch\<close> block: an error whose message mentions the certificate is replaced by a
  security error, any other error is thrown again.
\<close>

definition secureFetch_catch :: "js_error \<Rightarrow> js_error" where
  "secureFetch_catch error =
     (if err_message error \<noteq> [] \<and>
         (str_includes (err_message error) ''certificate'' \<or>
          str_includes (err_message error) ''SSL'' \<or>
          str_includes (err_message error) ''pinning'')
      then new_Error ''Security error: Server certificate validation failed''
      else error)"

definition secureFetch ::
  "('d, 's) fetch_env \<Rightarrow> string \<Rightarrow> fetch_options \<Rightarrow> int option
     \<Rightarrow> js_error + ('d, 's) fetched" where
  "secureFetch env url options timeout_arg =
     (case secureFetch_try env url options
             (case timeout_arg of None \<Rightarrow> DEFAULT_TIMEOUT | Some t \<Rightarrow> t) of
        Inr r \<Rightarrow> Inr r
      | Inl error \<Rightarrow> Inl (secureFetch_catch error))"

text \<open>
  The pinning configuration of a host name in the words of the specification: the entry
  of \<^verbatim>\<open>PINNED_DOMAINS\<close> under the name itself, or else the first entry with
  \<^verbatim>\<open>includeSubdomains\<close> of which the name is a subdomain.
\<close>

definition pinning_config_for :: "string \<Rightarrow> pin_config option" where
  "pinning_config_for domain =
     (case map_of PINNED_DOMAINS domain of
        Some config \<Rightarrow> Some config
      | None \<Rightarrow>
          map_option snd
            (find (\<lambda>p. includeSubdomains (snd p) \<and> endsWith domain (''.'' @ fst p))
               PINNED_DOMAINS))"

text \<open>
  An environment to run \<^verbatim>\<open>secureFetch\<close> in: a device that is connected or not, a
  parser of URLs, and two servers that answer every request.

  The parser reads \<^verbatim>\<open>http\<close> and \<^verbatim>\<open>https\<close> URLs whose host is an ASCII domain name,
  as \<^verbatim>\<open>new URL(url).hostname\<close> does for them: the scheme is matched in either case,
  the authority ends at the first slash, backslash, question mark or hash, the user
  information up to its last \<^verbatim>\<open>@\<close> and the port are dropped, and the host is put in
  lower case. It rejects every other string; URLs of other schemes, which
  \<^verbatim>\<open>new URL\<close> accepts, are outside this environment.
\<close>

definition ascii_lower :: "char \<Rightarrow> char" where
  "ascii_lower c =
     (if 65 \<le> (of_char c :: nat) \<and> (of_char c :: nat) \<le> 90
      then char_of ((of_char c :: nat) + 32) else c)"

definition hostname_of :: "string \<Rightarrow> js_error + string" where
  "hostname_of url =
     (let scheme = map ascii_lower url;
          rest = (if starts_with scheme ''https://'' then Some (drop 8 url)
                  else if starts_with scheme ''http://'' then Some (drop 7 url)
                  else None)
      in case rest of
           None \<Rightarrow> Inl (TypeError ''Invalid URL'')
         | Some r \<Rightarrow>
             (let authority = takeWhile (\<lambda>c. c \<noteq> CHR ''/'' \<and> c \<noteq> CHR 0x5C \<and> c \<noteq> CHR ''?''
                                               \<and> c \<noteq> CHR ''#'') r;
                  hostport = rev (takeWhile (\<lambda>c. c \<noteq> CHR ''@'') (rev authority));
                  host = takeWhile (\<lambda>c. c \<noteq> CHR '':'') hostport
              in if host = [] then Inl (TypeError ''Invalid URL'')
                 else Inr (map ascii_lower host)))"

definition plain_server :: "string \<Rightarrow> plain_fetch_options \<Rightarrow> js_error + string fetch_response" where
  "plain_server url options =
     Inr \<lparr>fr_content_type = Some ''text/plain'',
          fr_json = Inl (new_Error ''Unexpected token''),
          fr_text = Inr ''plain body'',
          fr_blob = Inr ''plain blob''\<rparr>"

definition pinning_server :: "string \<Rightarrow> pinning_options \<Rightarrow> js_error + string list" where
  "pinning_server url options =
     Inr (case po_sslPinning_certs options of None \<Rightarrow> [] | Some cs \<Rightarrow> cs)"

definition example_env :: "bool \<Rightarrow> (string, string list) fetch_env" where
  "example_env connected =
     \<lparr>env_platform = Android, env_isConnected = Inr connected, env_hostname = hostname_of,
      env_fetch = plain_server, env_sslPinningFetch = pinning_server\<rparr>"

definition no_options :: fetch_options where
  "no_options = \<lparr>fo_method = None, fo_headers = None, fo_body = None\<rparr>"

section \<open>Permission request history (permissions-manager.js)\<close>

record history_entry =
  he_result :: string
  he_timestamp :: string

text \<open>
  The history object: permission types with their arrays of requests, in the order of the
  object's keys. The item under \<^verbatim>\<open>PERMISSION_HISTORY_KEY\<close> is written by this module
  only, as \<^verbatim>\<open>JSON.stringify(history)\<close>; the storage is modelled by the object that
  \<^verbatim>\<open>JSON.parse\<close> gives back, \<open>None\<close> when there is no item.
\<close>

type_synonym history = "(string \<times> history_entry list) list"

text \<open>A \<^verbatim>\<open>Date\<close>: \<^verbatim>\<open>toISOString()\<close> throws a RangeError on an invalid one.\<close>

datatype js_date = ValidDate string | InvalidDate

definition toISOString :: "js_date \<Rightarrow> js_error + string" where
  "toISOString d =
     (case d of
        ValidDate stamp \<Rightarrow> Inr stamp
      | InvalidDate \<Rightarrow> Inl ((new_Error ''Invalid time value'')\<lparr>err_name := ''RangeError''\<rparr>))"

text \<open>\<^verbatim>\<open>AsyncStorage.getItem\<close> and \<^verbatim>\<open>AsyncStorage.setItem\<close> may reject.\<close>

record storage_env =
  getItem_rejects :: "js_error option"
  setItem_rejects :: "js_error option"

text \<open>\<^verbatim>\<open>xs.slice(-5)\<close>: the last five elements, or all of a shorter array.\<close>

definition slice_last5 :: "'a list \<Rightarrow> 'a list" where
  "slice_last5 xs = drop (length xs - 5) xs"

text \<open>
  The body of the \<^verbatim>\<open>try\<close> block of \<^verbatim>\<open>savePermissionHistory\<close>: the error thrown, or
  the history that was saved. An inherited member under the permission type is truthy, so
  no array is created, and it has no \<^verbatim>\<open>push\<close>.
\<close>

definition savePermissionHistory_try ::
  "storage_env \<Rightarrow> history option \<Rightarrow> string \<Rightarrow> string \<Rightarrow> js_date \<Rightarrow> js_error + history" where
  "savePermissionHistory_try env stored permissionType result timestamp =
     (case getItem_rejects env of
        Some e \<Rightarrow> Inl e
      | None \<Rightarrow>
          (let history = (case stored of None \<Rightarrow> [] | Some h \<Rightarrow> h);
               current = get_property history permissionType
           in case toISOString timestamp of
                Inl e \<Rightarrow> Inl e
              | Inr stamp \<Rightarrow>
                  (case current of
                     Inherited m \<Rightarrow>
                       Inl (TypeError ''history[permissionType].push is not a function'')
                   | _ \<Rightarrow>
                       (let requests = (case current of Own es \<Rightarrow> es | _ \<Rightarrow> []);
                            pushed = requests @ [\<lparr>he_result = result, he_timestamp = stamp\<rparr>];
                            kept = (if length pushed > 5 then slice_last5 pushed else pushed);
                            history' = AList.update permissionType kept history
                        in case setItem_rejects env of
                             Some e \<Rightarrow> Inl e
                           | None \<Rightarrow> Inr history'))))"

text \<open>
  \<^verbatim>\<open>savePermissionHistory\<close> returns nothing and swallows every error; what it leaves
  behind is the stored history.
\<close>

definition savePermissionHistory ::
  "storage_env \<Rightarrow> history option \<Rightarrow> string \<Rightarrow> string \<Rightarrow> js_date \<Rightarrow> history option" where
  "savePermissionHistory env stored permissionType result timestamp =
     (case savePermissionHistory_try env stored permissionType result timestamp of
        Inl error \<Rightarrow> stored
      | Inr history' \<Rightarrow> Some history')"

text \<open>The bound on a stored history: at most five requests under every permission type.\<close>

definition history_bounded :: "history option \<Rightarrow> bool" where
  "history_bounded stored =
     (case stored of None \<Rightarrow> True | Some h \<Rightarrow> list_all (\<lambda>p. length (snd p) \<le> 5) h)"

text \<open>The requests stored under a permission type (\<^verbatim>\<open>getPermissionHistory(type)\<close>).\<close>

definition requests_of :: "history option \<Rightarrow> string \<Rightarrow> history_entry list" where
  "requests_of stored permissionType =
     (case stored of
        None \<Rightarrow> []
      | Some h \<Rightarrow> (case map_of h permissionType of None \<Rightarrow> [] | Some es \<Rightarrow> es))"

text \<open>
  A storage that accepts every call, and a stored history with five requests for the
  camera.
\<close>

definition working_storage :: storage_env where
  "working_storage = \<lparr>getItem_rejects = None, setItem_rejects = None\<rparr>"

definition denied_on :: "string \<Rightarrow> history_entry" where
  "denied_on stamp = \<lparr>he_result = ''denied'', he_timestamp = stamp\<rparr>"

definition camera_history :: "history option" where
  "camera_history =
     Some [(''CAMERA'',
            [denied_on ''2024-01-01T00:00:00.000Z'', denied_on ''2024-01-02T00:00:00.000Z'',
             denied_on ''2024-01-03T00:00:00.000Z'', denied_on ''2024-01-04T00:00:00.000Z'',
             denied_on ''2024-01-05T00:00:00.000Z''])]"

section \<open>Loading a module (secure-input.js)\<close>

text \<open>
  The top level of a module is a sequence of \<^verbatim>\<open>const\<close> declarations, evaluated in
  order when the module is loaded. The initialisers of secure-input.js are built from
  literals, identifiers, object literals, arrow functions and method calls on imported
  bindings.
\<close>

datatype js_expr =
    Num int
  | Str string
  | Regex
  | Ident string
  | ArrowFunction
  | ObjectLit "(string \<times> js_expr) list"
  | MethodCall js_expr string "js_expr list"

datatype js_value =
    NumV int
  | StrV string
  | RegexV
  | Binding string
  | Closure
  | ObjectV "(string \<times> js_value) list"
  | CallV js_value string "js_value list"

text \<open>
  Evaluation in a scope, the list of the names that are bound. An identifier outside the
  scope throws a ReferenceError. An arrow function evaluates to a closure: its body is
  not evaluated. A method call on a binding that the environment provides returns; its
  receiver and its arguments are evaluated first, left to right.
\<close>

fun eval :: "string list \<Rightarrow> js_expr \<Rightarrow> js_error + js_value"
  and eval_props :: "string list \<Rightarrow> (string \<times> js_expr) list \<Rightarrow> js_error + (string \<times> js_value) list"
  and eval_args :: "string list \<Rightarrow> js_expr list \<Rightarrow> js_error + js_value list" where
  "eval scope (Num n) = Inr (NumV n)"
| "eval scope (Str s) = Inr (StrV s)"
| "eval scope Regex = Inr RegexV"
| "eval scope (Ident x) =
     (if x \<in> set scope then Inr (Binding x) else Inl (ReferenceError (x @ '' is not defined'')))"
| "eval scope ArrowFunction = Inr Closure"
| "eval scope (ObjectLit ps) =
     (case eval_props scope ps of Inl e \<Rightarrow> Inl e | Inr vs \<Rightarrow> Inr (ObjectV vs))"
| "eval scope (MethodCall obj m args) =
     (case eval scope obj of
        Inl e \<Rightarrow> Inl e
      | Inr f \<Rightarrow> (case eval_args scope args of Inl e \<Rightarrow> Inl e | Inr vs \<Rightarrow> Inr (CallV f m vs)))"
| "eval_props scope [] = Inr []"
| "eval_props scope (p # ps) =
     (case eval scope (snd p) of
        Inl e \<Rightarrow> Inl e
      | Inr v \<Rightarrow>
          (case eval_props scope ps of Inl e \<Rightarrow> Inl e | Inr vs \<Rightarrow> Inr ((fst p, v) # vs)))"
| "eval_args scope [] = Inr []"
| "eval_args scope (a # as) =
     (case eval scope a of
        Inl e \<Rightarrow> Inl e
      | Inr v \<Rightarrow> (case eval_args scope as of Inl e \<Rightarrow> Inl e | Inr vs \<Rightarrow> Inr (v # vs)))"

text \<open>
  Loading: each declaration is evaluated in the scope of the imports and of the
  declarations before it; the first error stops the load.
\<close>

fun load_module :: "string list \<Rightarrow> (string \<times> js_expr) list \<Rightarrow> js_error + string list" where
  "load_module scope [] = Inr scope"
| "load_module scope (d # ds) =
     (case eval scope (snd d) of
        Inl e \<Rightarrow> Inl e
      | Inr v \<Rightarrow> load_module (scope @ [fst d]) ds)"

definition secure_input_imports :: "string list" where
  "secure_input_imports =
     [''React'', ''useState'', ''useRef'', ''useEffect'',
      ''View'', ''TextInput'', ''Text'', ''StyleSheet'', ''TouchableOpacity'', ''Clipboard'',
      ''Platform'', ''Keyboard'', ''z'', ''Icon'']"

definition z_string :: js_expr where
  "z_string = MethodCall (Ident ''z'') ''string'' []"

definition Validators_init :: js_expr where
  "Validators_init =
     ObjectLit
       [(''email'', MethodCall z_string ''email'' [Str ''Please enter a valid email address'']),
        (''password'',
         MethodCall
           (MethodCall
              (MethodCall
                 (MethodCall z_string ''min'' [Num 8, Str ''Password must be at least 8 characters''])
                 ''regex'' [Regex, Str ''Password must contain at least one uppercase letter''])
              ''regex'' [Regex, Str ''Password must contain at least one lowercase letter''])
           ''regex'' [Regex, Str ''Password must contain at least one number'']),
        (''phone'', MethodCall z_string ''regex'' [Regex, Str ''Please enter a valid phone number'']),
        (''creditCard'',
         MethodCall z_string ''regex'' [Regex, Str ''Please enter a valid 16-digit card number'']),
        (''cvv'', MethodCall z_string ''regex'' [Regex, Str ''Please enter a valid CVV code'']),
        (''expiryDate'', MethodCall z_string ''regex'' [Regex, Str ''Please use MM/YY format''])]"

definition Masks_init :: js_expr where
  "Masks_init =
     ObjectLit
       [(''creditCard'', ArrowFunction), (''phone'', ArrowFunction),
        (''expiryDate'', ArrowFunction), (''ssn'', ArrowFunction)]"

text \<open>
  The initialiser of \<^verbatim>\<open>styles\<close>, property by property, as a function of the
  expression that stands for \<^verbatim>\<open>borderRadius\<close>; the source has the identifier
  \<^verbatim>\<open>a8\<close> there.
\<close>

definition styles_init_with :: "js_expr \<Rightarrow> js_expr" where
  "styles_init_with borderRadius =
     MethodCall (Ident ''StyleSheet'') ''create''
       [ObjectLit
          [(''container'', ObjectLit [(''marginBottom'', Num 16)]),
           (''label'',
            ObjectLit
              [(''fontSize'', Num 14), (''marginBottom'', Num 8), (''fontWeight'', Str ''500''),
               (''color'', Str ''#333'')]),
           (''inputContainer'',
            ObjectLit
              [(''flexDirection'', Str ''row''), (''alignItems'', Str ''center''),
               (''borderWidth'', Num 1), (''borderColor'', Str ''#ccc''),
               (''borderRadius'', borderRadius), (''backgroundColor'', Str ''#fff''),
               (''paddingHorizontal'', Num 12), (''height'', Num 48)]),
           (''inputFocused'',
            ObjectLit [(''borderColor'', Str ''#007AFF''), (''borderWidth'', Num 2)]),
           (''inputError'', ObjectLit [(''borderColor'', Str ''#FF3B30'')]),
           (''inputDisabled'',
            ObjectLit [(''backgroundColor'', Str ''#f5f5f5''), (''borderColor'', Str ''#e0e0e0'')]),
           (''input'',
            ObjectLit
              [(''flex'', Num 1), (''fontSize'', Num 16), (''color'', Str ''#333''),
               (''paddingVertical'', Num 8)]),
           (''iconContainer'', ObjectLit [(''padding'', Num 4), (''marginLeft'', Num 4)]),
           (''errorText'',
            ObjectLit
              [(''color'', Str ''#FF3B30''), (''fontSize'', Num 12), (''marginTop'', Num 4)])]]"

definition styles_init :: js_expr where
  "styles_init = styles_init_with (Ident ''a8'')"

definition declarations_with :: "js_expr \<Rightarrow> (string \<times> js_expr) list" where
  "declarations_with styles =
     [(''SecureInput'', ArrowFunction),
      (''Validators'', Validators_init),
      (''Masks'', Masks_init),
      (''styles'', styles)]"

definition secure_input_declarations :: "(string \<times> js_expr) list" where
  "secure_input_declarations = declarations_with styles_init"

section \<open>The import graph of the example files\<close>

text \<open>
  The example modules of the repository. \<open>RateLimit\<close>, \<open>CertificatePinning\<close> and
  \<open>ApiClient\<close> are the modules whose doc comments name them the rate limiting utility,
  the certificate pinning implementation and the secure API client; \<open>SecureStorage\<close>,
  \<open>BiometricAuth\<close> and \<open>ApiRoute\<close> are the secure storage utilities, the biometric
  authentication module and the secure API route example.
\<close>

datatype example_file =
    SecureHeaders | AuthConfig | AuthMiddleware | InputValidation | RateLimit
  | CsrfProtection | ApiRoute | SecureInput | AuthProvider | PermissionsManager
  | CertificatePinning | ApiClient | SecureStorage | BiometricAuth

definition all_example_files :: "example_file list" where
  "all_example_files =
     [SecureHeaders, AuthConfig, AuthMiddleware, InputValidation, RateLimit,
      CsrfProtection, ApiRoute, SecureInput, AuthProvider, PermissionsManager,
      CertificatePinning, ApiClient, SecureStorage, BiometricAuth]"

text \<open>The \<^verbatim>\<open>import\<close> declarations of each module: the specifier and the names bound.\<close>

fun imports_of :: "example_file \<Rightarrow> (string \<times> string list) list" where
  "imports_of SecureHeaders = []"
| "imports_of AuthConfig =
     [(''next-auth'', [''NextAuth'']),
      (''next-auth/providers/credentials'', [''CredentialsProvider'']),
      (''bcryptjs'', [''compare'']), (''zod'', [''z''])]"
| "imports_of AuthMiddleware =
     [(''next/server'', [''NextResponse'']), (''next-auth/jwt'', [''getToken''])]"
| "imports_of InputValidation =
     [(''zod'', [''z'']), (''isomorphic-dompurify'', [''DOMPurify''])]"
| "imports_of RateLimit = [(''lru-cache'', [''LRUCache''])]"
| "imports_of CsrfProtection =
     [(''iron-session/next'', [''withIronSessionApiRoute'', ''withIronSessionSsr'']),
      (''next-csrf'', [''getToken'', ''csrf''])]"
| "imports_of ApiRoute =
     [(''next/server'', [''NextResponse'']), (''next-auth/next'', [''getServerSession'']),
      (''@/utils/rate-limit'', [''rateLimit'']), (''@/auth/auth-config'', [''authOptions'']),
      (''@/utils/input-validation'', [''validateInput'', ''schemas'']), (''zod'', [''z''])]"
| "imports_of SecureInput =
     [(''react'', [''React'', ''useState'', ''useRef'', ''useEffect'']),
      (''react-native'',
       [''View'', ''TextInput'', ''Text'', ''StyleSheet'', ''TouchableOpacity'', ''Clipboard'',
        ''Platform'', ''Keyboard'']),
      (''zod'', [''z'']),
      (''react-native-vector-icons/MaterialCommunityIcons'', [''Icon''])]"
| "imports_of AuthProvider =
     [(''react'', [''React'', ''createContext'', ''useState'', ''useContext'', ''useEffect'']),
      (''react-native'', [''Platform'']), (''react-native-keychain'', [''Keychain'']),
      (''zod'', [''z'']),
      (''../services/api-client'', [''secureApiClient'']),
      (''../utils/biometric-auth'', [''checkBiometricAvailability''])]"
| "imports_of PermissionsManager =
     [(''react-native'', [''Platform'', ''Alert'', ''Linking'']),
      (''react-native-permissions'',
       [''request'', ''check'', ''RESULTS'', ''PERMISSIONS'', ''openSettings'']),
      (''@react-native-async-storage/async-storage'', [''AsyncStorage''])]"
| "imports_of CertificatePinning =
     [(''react-native'', [''Platform'']), (''react-native-ssl-pinning'', [''fetch'']),
      (''@react-native-community/netinfo'', [''NetInfo''])]"
| "imports_of ApiClient =
     [(''react-native'', [''Platform'']), (''axios'', [''axios'']),
      (''@react-native-community/netinfo'', [''NetInfo'']),
      (''../utils/certificate-pinning'', [''secureFetch'']),
      (''react-native-keychain'', [''getInternetCredentials'', ''setInternetCredentials''])]"
| "imports_of SecureStorage =
     [(''@react-native-async-storage/async-storage'', [''AsyncStorage'']),
      (''react-native-keychain'', [''Keychain'']), (''react-native'', [''Platform''])]"
| "imports_of BiometricAuth =
     [(''react-native-biometrics'', [''ReactNativeBiometrics'', ''BiometryTypes'']),
      (''react-native-keychain'', [''Keychain'']), (''react-native'', [''Platform''])]"

text \<open>The names each module exports.\<close>

fun exports_of :: "example_file \<Rightarrow> string list" where
  "exports_of SecureHeaders = [''secureHeadersConfig'', ''getEnvironmentHeaders'']"
| "exports_of AuthConfig = [''authOptions'', ''handler'', ''GET'', ''POST'']"
| "exports_of AuthMiddleware = [''middleware'', ''config'']"
| "exports_of InputValidation =
     [''schemas'', ''validateInput'', ''sanitizeHtml'', ''validateRequest'']"
| "exports_of RateLimit =
     [''rateLimit'', ''globalLimiter'', ''authLimiter'', ''sensitiveApiLimiter'']"
| "exports_of CsrfProtection =
     [''csrfConfig'', ''withCsrfApiRoute'', ''withCsrfSsr'', ''useCsrfToken'', ''CsrfToken'',
      ''createCsrfFetch'']"
| "exports_of ApiRoute = [''GET'', ''POST'']"
| "exports_of SecureInput = [''Validators'', ''Masks'', ''default'']"
| "exports_of AuthProvider = [''AuthProvider'', ''useAuth'']"
| "exports_of PermissionsManager =
     [''requestPermission'', ''checkMultiplePermissions'', ''requestMultiplePermissions'',
      ''clearPermissionHistory'', ''getPermissionStatus'', ''hasRequiredPermissions'',
      ''usePermissions'', ''PermissionTypes'', ''PermissionResults'']"
| "exports_of CertificatePinning = [''secureFetch'', ''createSecureApiClient'']"
| "exports_of ApiClient = [''createApiClient'', ''createTestApiClient'', ''secureApiClient'']"
| "exports_of SecureStorage =
     [''SECURITY_LEVEL'', ''secureStore'', ''secureRetrieve'', ''secureRemove'']"
| "exports_of BiometricAuth =
     [''checkBiometricAvailability'', ''getBiometricType'', ''generateBiometricKeys'',
      ''hasBiometricKeys'', ''deleteBiometricKeys'', ''authenticateWithBiometrics'',
      ''signWithBiometrics'', ''verifySignature'', ''secureBiometricData'',
      ''retrieveBiometricData'']"

text \<open>
  The specifiers that name a module of the repository (a relative path, or the alias
  \<^verbatim>\<open>@/\<close> of the Next.js project root); every other specifier names a third-party package.
\<close>

definition resolve :: "string \<Rightarrow> example_file option" where
  "resolve specifier =
     (if specifier = ''@/utils/rate-limit'' then Some RateLimit
      else if specifier = ''@/auth/auth-config'' then Some AuthConfig
      else if specifier = ''@/utils/input-validation'' then Some InputValidation
      else if specifier = ''../services/api-client'' then Some ApiClient
      else if specifier = ''../utils/biometric-auth'' then Some BiometricAuth
      else if specifier = ''../utils/certificate-pinning'' then Some CertificatePinning
      else None)"

text \<open>
  A module depends on another when one of its imports resolves to it and binds names
  that the other exports.
\<close>

definition depends_on :: "example_file \<Rightarrow> example_file \<Rightarrow> bool" where
  "depends_on f g =
     (f \<noteq> g \<and>
      list_ex (\<lambda>i. resolve (fst i) = Some g \<and> list_all (\<lambda>n. n \<in> set (exports_of g)) (snd i))
        (imports_of f))"

definition dependencies :: "example_file \<Rightarrow> example_file list" where
  "dependencies f = filter (depends_on f) all_example_files"

section \<open>The demonstration XOR cipher (secure-storage.js)\<close>

text \<open>
  A JavaScript string is a sequence of 16-bit code units; \<^verbatim>\<open>charCodeAt\<close> reads one and
  \<^verbatim>\<open>String.fromCharCode\<close> makes one. A buffer is a sequence of bytes, each below 256.
\<close>

type_synonym js_string = "16 word list"

text \<open>
  \<^verbatim>\<open>key.charCodeAt(i % key.length)\<close>. On the empty key the index is \<^verbatim>\<open>NaN\<close> and so
  is the code, and \<^verbatim>\<open>x ^ NaN\<close> is \<^verbatim>\<open>x\<close>: the code acts as 0.
\<close>

definition key_code :: "js_string \<Rightarrow> nat \<Rightarrow> 16 word" where
  "key_code key i = (if key = [] then 0 else key ! (i mod length key))"

text \<open>The \<^verbatim>\<open>for\<close> loop of both functions, with its counter and its accumulator.\<close>

function xor_loop :: "js_string \<Rightarrow> js_string \<Rightarrow> nat \<Rightarrow> js_string \<Rightarrow> js_string" where
  "xor_loop text key i result =
     (if i < length text
      then xor_loop text key (i + 1) (result @ [(text ! i) XOR key_code key i])
      else result)"
  by pat_completeness auto
termination
  by (relation "measure (\<lambda>(text, key, i, result). length text - i)") auto

declare xor_loop.simps [simp del]

subsection \<open>Buffer.from(string) and toString(): UTF-8\<close>

definition is_high_surrogate :: "16 word \<Rightarrow> bool" where
  "is_high_surrogate c = (0xD800 \<le> unat c \<and> unat c \<le> 0xDBFF)"

definition is_low_surrogate :: "16 word \<Rightarrow> bool" where
  "is_low_surrogate c = (0xDC00 \<le> unat c \<and> unat c \<le> 0xDFFF)"

text \<open>The code point of a surrogate pair.\<close>

definition pair_code_point :: "16 word \<Rightarrow> 16 word \<Rightarrow> nat" where
  "pair_code_point hi lo = 0x10000 + (unat hi - 0xD800) * 0x400 + (unat lo - 0xDC00)"

definition encode_code_point :: "nat \<Rightarrow> nat list" where
  "encode_code_point cp =
     (if cp < 0x80 then [cp]
      else if cp < 0x800 then [0xC0 + cp div 64, 0x80 + cp mod 64]
      else if cp < 0x10000
        then [0xE0 + cp div 4096, 0x80 + (cp div 64) mod 64, 0x80 + cp mod 64]
      else [0xF0 + cp div 262144, 0x80 + (cp div 4096) mod 64, 0x80 + (cp div 64) mod 64,
            0x80 + cp mod 64])"

text \<open>The bytes of U+FFFD, which replaces a surrogate without its partner.\<close>

definition replacement_bytes :: "nat list" where
  "replacement_bytes = [0xEF, 0xBF, 0xBD]"

fun utf8_encode :: "js_string \<Rightarrow> nat list" where
  "utf8_encode [] = []"
| "utf8_encode [c] =
     (if is_high_surrogate c \<or> is_low_surrogate c then replacement_bytes
      else encode_code_point (unat c))"
| "utf8_encode (c # d # rest) =
     (if is_high_surrogate c
      then (if is_low_surrogate d
            then encode_code_point (pair_code_point c d) @ utf8_encode rest
            else replacement_bytes @ utf8_encode (d # rest))
      else if is_low_surrogate c then replacement_bytes @ utf8_encode (d # rest)
      else encode_code_point (unat c) @ utf8_encode (d # rest))"

text \<open>
  The decoder reads a byte at a time. Its state is the code point collected so far, the
  number of continuation bytes seen and needed, and the range the next continuation
  byte must lie in. A byte outside that range ends the sequence with U+FFFD and is read
  again as the start of the next one; so does the end of the input.
\<close>

record utf8_state =
  code_point :: nat
  bytes_seen :: nat
  bytes_needed :: nat
  lower_boundary :: nat
  upper_boundary :: nat

definition utf8_initial :: utf8_state where
  "utf8_initial =
     \<lparr>code_point = 0, bytes_seen = 0, bytes_needed = 0, lower_boundary = 0x80,
      upper_boundary = 0xBF\<rparr>"

definition replacement_unit :: "16 word" where
  "replacement_unit = 0xFFFD"

definition code_units :: "nat \<Rightarrow> js_string" where
  "code_units cp =
     (if cp < 0x10000 then [of_nat cp]
      else [of_nat (0xD800 + (cp - 0x10000) div 0x400),
            of_nat (0xDC00 + (cp - 0x10000) mod 0x400)])"

function utf8_decode_from :: "utf8_state \<Rightarrow> nat list \<Rightarrow> js_string" where
  "utf8_decode_from st [] = (if bytes_needed st \<noteq> 0 then [replacement_unit] else [])"
| "utf8_decode_from st (b # bs) =
     (if bytes_needed st = 0 then
        (if b \<le> 0x7F then of_nat b # utf8_decode_from utf8_initial bs
         else if 0xC2 \<le> b \<and> b \<le> 0xDF
           then utf8_decode_from (utf8_initial\<lparr>bytes_needed := 1, code_point := b mod 32\<rparr>) bs
         else if 0xE0 \<le> b \<and> b \<le> 0xEF
           then utf8_decode_from
                  (utf8_initial\<lparr>bytes_needed := 2, code_point := b mod 16,
                     lower_boundary := (if b = 0xE0 then 0xA0 else 0x80),
                     upper_boundary := (if b = 0xED then 0x9F else 0xBF)\<rparr>) bs
         else if 0xF0 \<le> b \<and> b \<le> 0xF4
           then utf8_decode_from
                  (utf8_initial\<lparr>bytes_needed := 3, code_point := b mod 8,
                     lower_boundary := (if b = 0xF0 then 0x90 else 0x80),
                     upper_boundary := (if b = 0xF4 then 0x8F else 0xBF)\<rparr>) bs
         else replacement_unit # utf8_decode_from utf8_initial bs)
      else if b < lower_boundary st \<or> upper_boundary st < b
        then replacement_unit # utf8_decode_from utf8_initial (b # bs)
      else
        (let cp = code_point st * 64 + b mod 64
         in if bytes_seen st + 1 \<noteq> bytes_needed st
            then utf8_decode_from
                   (st\<lparr>code_point := cp, bytes_seen := bytes_seen st + 1,
                      lower_boundary := 0x80, upper_boundary := 0xBF\<rparr>) bs
            else code_units cp @ utf8_decode_from utf8_initial bs))"
  by pat_completeness auto
termination
  by (relation "measure (\<lambda>(st, bs). 2 * length bs + (if bytes_needed st = 0 then 0 else 1))")
     (auto simp: utf8_initial_def)

declare utf8_decode_from.simps [simp del]

definition utf8_decode :: "nat list \<Rightarrow> js_string" where
  "utf8_decode bs = utf8_decode_from utf8_initial bs"

subsection \<open>toString('base64') and Buffer.from(string, 'base64')\<close>

text \<open>The character code of a 6-bit value in the base64 alphabet.\<close>

definition b64_char :: "nat \<Rightarrow> 16 word" where
  "b64_char v =
     of_nat (if v < 26 then 65 + v else if v < 52 then 71 + v else if v < 62 then v - 4
             else if v = 62 then 43 else 47)"

definition b64_pad :: "16 word" where
  "b64_pad = 61"

fun base64_encode :: "nat list \<Rightarrow> js_string" where
  "base64_encode [] = []"
| "base64_encode [a] = [b64_char (a div 4), b64_char ((a mod 4) * 16), b64_pad, b64_pad]"
| "base64_encode [a, b] =
     [b64_char (a div 4), b64_char ((a mod 4) * 16 + b div 16), b64_char ((b mod 16) * 4),
      b64_pad]"
| "base64_encode (a # b # c # rest) =
     [b64_char (a div 4), b64_char ((a mod 4) * 16 + b div 16),
      b64_char ((b mod 16) * 4 + c div 64), b64_char (c mod 64)] @ base64_encode rest"

text \<open>
  The value of a character in the alphabet; the decoder also takes the characters
  \<^verbatim>\<open>-\<close> and \<^verbatim>\<open>_\<close> of the URL-safe alphabet.
\<close>

definition b64_value :: "16 word \<Rightarrow> nat option" where
  "b64_value c =
     (let n = unat c
      in if 65 \<le> n \<and> n \<le> 90 then Some (n - 65)
         else if 97 \<le> n \<and> n \<le> 122 then Some (n - 71)
         else if 48 \<le> n \<and> n \<le> 57 then Some (n + 4)
         else if n = 43 \<or> n = 45 then Some 62
         else if n = 47 \<or> n = 95 then Some 63
         else None)"

text \<open>
  The decoder skips the characters outside the alphabet and stops at the padding
  character.
\<close>

fun b64_sextets :: "js_string \<Rightarrow> nat list" where
  "b64_sextets [] = []"
| "b64_sextets (c # cs) =
     (if c = b64_pad then []
      else (case b64_value c of None \<Rightarrow> b64_sextets cs | Some v \<Rightarrow> v # b64_sextets cs))"

fun b64_bytes :: "nat list \<Rightarrow> nat list" where
  "b64_bytes (s1 # s2 # s3 # s4 # rest) =
     [s1 * 4 + s2 div 16, (s2 mod 16) * 16 + s3 div 4, (s3 mod 4) * 64 + s4] @ b64_bytes rest"
| "b64_bytes [s1, s2, s3] = [s1 * 4 + s2 div 16, (s2 mod 16) * 16 + s3 div 4]"
| "b64_bytes [s1, s2] = [s1 * 4 + s2 div 16]"
| "b64_bytes ss = []"

definition base64_decode :: "js_string \<Rightarrow> nat list" where
  "base64_decode s = b64_bytes (b64_sextets s)"

subsection \<open>The cipher\<close>

definition encryptXOR :: "js_string \<Rightarrow> js_string \<Rightarrow> js_string" where
  "encryptXOR text key = base64_encode (utf8_encode (xor_loop text key 0 []))"

definition decryptXOR :: "js_string \<Rightarrow> js_string \<Rightarrow> js_string" where
  "decryptXOR encryptedBase64 key =
     (let encryptedText = utf8_decode (base64_decode encryptedBase64)
      in xor_loop encryptedText key 0 [])"

text \<open>
  A string is well formed when every surrogate is half of a pair: a high surrogate
  followed by a low one.
\<close>

fun well_formed :: "js_string \<Rightarrow> bool" where
  "well_formed [] = True"
| "well_formed [c] = (\<not> is_high_surrogate c \<and> \<not> is_low_surrogate c)"
| "well_formed (c # d # rest) =
     (if is_high_surrogate c then is_low_surrogate d \<and> well_formed rest
      else \<not> is_low_surrogate c \<and> well_formed (d # rest))"

text \<open>Two code units of the same kind: both high surrogates, both low, or neither.\<close>

definition same_class :: "16 word \<Rightarrow> 16 word \<Rightarrow> bool" where
  "same_class x y \<longleftrightarrow> is_high_surrogate x = is_high_surrogate y
                    \<and> is_low_surrogate x = is_low_surrogate y"

subsection \<open>Storing and retrieving at the sensitive level\<close>

text \<open>
  The keychain holds a user name and a password under a service name, the asynchronous
  storage holds strings under keys. Every call of either may reject.
\<close>

record secure_store =
  keychain :: "(string \<times> string \<times> js_string) list"
  async_items :: "(string \<times> js_string) list"

record secure_env =
  setGenericPassword_rejects :: "js_error option"
  getGenericPassword_rejects :: "js_error option"
  async_env :: storage_env

text \<open>
  \<^verbatim>\<open>_storeEncrypted(key, value)\<close>. The value enters as the text that
  \<^verbatim>\<open>JSON.stringify(value)\<close> gives, and the encryption key as the string that the two
  calls of \<^verbatim>\<open>Math.random\<close> give.
\<close>

definition storeEncrypted ::
  "secure_env \<Rightarrow> secure_store \<Rightarrow> js_string \<Rightarrow> string \<Rightarrow> js_string
     \<Rightarrow> (js_error + bool) \<times> secure_store" where
  "storeEncrypted env st encryptionKey key json =
     (case setGenericPassword_rejects env of
        Some e \<Rightarrow> (Inl e, st)
      | None \<Rightarrow>
          (let st1 = st\<lparr>keychain :=
                         AList.update (key @ ''_encryption_key'') (key, encryptionKey)
                           (keychain st)\<rparr>;
               encryptedValue = encryptXOR json encryptionKey
           in case setItem_rejects (async_env env) of
                Some e \<Rightarrow> (Inl e, st1)
              | None \<Rightarrow>
                  (Inr True,
                   st1\<lparr>async_items := AList.update key encryptedValue (async_items st1)\<rparr>)))"

text \<open>
  \<^verbatim>\<open>_retrieveEncrypted(key)\<close>, up to the decrypted string that it hands to
  \<^verbatim>\<open>JSON.parse\<close>; \<open>None\<close> is the \<^verbatim>\<open>null\<close> it returns when the credentials or the
  encrypted value are missing, or the encrypted value is the empty string.
\<close>

definition retrieveEncrypted ::
  "secure_env \<Rightarrow> secure_store \<Rightarrow> string \<Rightarrow> js_error + js_string option" where
  "retrieveEncrypted env st key =
     (case getGenericPassword_rejects env of
        Some e \<Rightarrow> Inl e
      | None \<Rightarrow>
          (case map_of (keychain st) (key @ ''_encryption_key'') of
             None \<Rightarrow> Inr None
           | Some credentials \<Rightarrow>
               (let encryptionKey = snd credentials
                in case getItem_rejects (async_env env) of
                     Some e \<Rightarrow> Inl e
                   | None \<Rightarrow>
                       (case map_of (async_items st) key of
                          None \<Rightarrow> Inr None
                        | Some encryptedValue \<Rightarrow>
                            if encryptedValue = [] then Inr None
                            else Inr (Some (decryptXOR encryptedValue encryptionKey))))))"

definition working_secure_env :: secure_env where
  "working_secure_env =
     \<lparr>setGenericPassword_rejects = None, getGenericPassword_rejects = None,
      async_env = working_storage\<rparr>"

section \<open>The API client (api-client.js)\<close>

subsection \<open>The token refresh in the response interceptor\<close>

text \<open>
  A request configuration of the Axios instance, as far as the interceptor reads and
  writes it: the URL, the \<^verbatim>\<open>_retry\<close> mark and the \<^verbatim>\<open>Authorization\<close> header.
\<close>

record api_request =
  rq_url :: string
  rq_retry :: bool
  rq_authorization :: "string option"

text \<open>
  A promise chain that \<^verbatim>\<open>authProvider.refreshToken()\<close> starts: it waits for the
  refresh, then for \<^verbatim>\<open>getAccessToken()\<close>, and ends fulfilled with the new token or
  rejected.
\<close>

datatype refresh_chain = AwaitingRefresh | AwaitingToken | Fulfilled string | Failed

text \<open>
  The module's variables \<^verbatim>\<open>isRefreshingToken\<close>, \<^verbatim>\<open>tokenRefreshPromise\<close> (the index
  of a chain, \<open>None\<close> for \<^verbatim>\<open>null\<close>) and \<^verbatim>\<open>refreshSubscribers\<close>, and what has happened
  so far. The promises that the interceptor returns for responses with status 401 are
  numbered in the order of their creation, \<open>promises\<close> counting them. A callback in
  \<^verbatim>\<open>refreshSubscribers\<close> is the closure of one interceptor call: the number of the
  promise that it resolves and the request that it replays. The state records the
  chains started, the promises still pending (number, request, and the chain whose
  rejection rejects them), the requests replayed through \<^verbatim>\<open>apiClient(originalRequest)\<close>,
  the requests whose promise was rejected, and the calls of \<^verbatim>\<open>authProvider.logout()\<close>.
\<close>

record client_state =
  isRefreshingToken :: bool
  tokenRefreshPromise :: "nat option"
  refreshSubscribers :: "(nat \<times> api_request) list"
  started :: "refresh_chain list"
  promises :: nat
  waiting :: "(nat \<times> api_request \<times> nat) list"
  replayed :: "api_request list"
  rejected :: "api_request list"
  logouts :: nat

definition initial_client_state :: client_state where
  "initial_client_state =
     \<lparr>isRefreshingToken = False, tokenRefreshPromise = None, refreshSubscribers = [],
      started = [], promises = 0, waiting = [], replayed = [], rejected = [], logouts = 0\<rparr>"

text \<open>
  JavaScript runs each callback to its end before the next one starts, so the
  interleavings of the client are the sequences of these events: a response with status
  401 arrives for a request, the refresh of a chain settles (with its success value, or
  rejected), the token of a chain settles (with the token, or rejected).
\<close>

datatype client_event =
    Unauthorized api_request
  | RefreshSettled nat "bool option"
  | TokenSettled nat "string option"

text \<open>
  The \<^verbatim>\<open>.catch\<close> handler of a chain: the subscribers are dropped, the user is logged
  out, and the promises that wait on this chain are rejected.
\<close>

definition fail_chain :: "nat \<Rightarrow> client_state \<Rightarrow> client_state" where
  "fail_chain i st =
     st\<lparr>refreshSubscribers := [],
        logouts := logouts st + 1,
        started := (started st)[i := Failed],
        rejected := rejected st @ map (\<lambda>w. fst (snd w)) (filter (\<lambda>w. snd (snd w) = i) (waiting st)),
        waiting := filter (\<lambda>w. snd (snd w) \<noteq> i) (waiting st)\<rparr>"

text \<open>The subscriber callback: the new token, the \<^verbatim>\<open>_retry\<close> mark, and the replay.\<close>

definition with_new_token :: "string \<Rightarrow> api_request \<Rightarrow> api_request" where
  "with_new_token newToken originalRequest =
     originalRequest\<lparr>rq_authorization := Some (''Bearer '' @ newToken), rq_retry := True\<rparr>"

text \<open>
  \<^verbatim>\<open>onTokenRefreshed(newToken)\<close>: every callback replays its request, which resolves its
  promise if that is still pending, and the list is emptied.
\<close>

definition onTokenRefreshed :: "string \<Rightarrow> client_state \<Rightarrow> client_state" where
  "onTokenRefreshed newToken st =
     st\<lparr>replayed := replayed st @ map (\<lambda>s. with_new_token newToken (snd s)) (refreshSubscribers st),
        waiting := filter (\<lambda>w. fst w \<notin> set (map fst (refreshSubscribers st))) (waiting st),
        refreshSubscribers := []\<rparr>"

text \<open>
  The error handler of the response interceptor of a client with an \<^verbatim>\<open>authProvider\<close>,
  for a response with status 401, and the callbacks of the chain. A request that
  carries the \<^verbatim>\<open>_retry\<close> mark is rejected. Otherwise a chain is started unless
  \<^verbatim>\<open>isRefreshingToken\<close> is set, the callback is subscribed, and the new promise waits
  on the chain that \<^verbatim>\<open>tokenRefreshPromise\<close> is at that moment; it is rejected at once
  when that chain has failed already, and when the variable is \<^verbatim>\<open>null\<close>.
\<close>

fun step :: "client_state \<Rightarrow> client_event \<Rightarrow> client_state" where
  "step st (Unauthorized originalRequest) =
     (if rq_retry originalRequest then st\<lparr>rejected := rejected st @ [originalRequest]\<rparr>
      else
        (let st1 = (if \<not> isRefreshingToken st
                    then st\<lparr>isRefreshingToken := True,
                            started := started st @ [AwaitingRefresh],
                            tokenRefreshPromise := Some (length (started st))\<rparr>
                    else st);
             p = promises st1;
             st2 = st1\<lparr>promises := p + 1,
                       refreshSubscribers := refreshSubscribers st1 @ [(p, originalRequest)]\<rparr>
         in case tokenRefreshPromise st2 of
              None \<Rightarrow> st2\<lparr>rejected := rejected st2 @ [originalRequest]\<rparr>
            | Some i \<Rightarrow>
                if i < length (started st2) \<and> started st2 ! i = Failed
                then st2\<lparr>rejected := rejected st2 @ [originalRequest]\<rparr>
                else st2\<lparr>waiting := waiting st2 @ [(p, originalRequest, i)]\<rparr>))"
| "step st (RefreshSettled i outcome) =
     (if i < length (started st) \<and> started st ! i = AwaitingRefresh
      then (case outcome of
              Some True \<Rightarrow> st\<lparr>isRefreshingToken := False, started := (started st)[i := AwaitingToken]\<rparr>
            | Some False \<Rightarrow> fail_chain i (st\<lparr>isRefreshingToken := False\<rparr>)
            | None \<Rightarrow> fail_chain i st)
      else st)"
| "step st (TokenSettled i outcome) =
     (if i < length (started st) \<and> started st ! i = AwaitingToken
      then (case outcome of
              Some newToken \<Rightarrow>
                (onTokenRefreshed newToken st)\<lparr>started := (started st)[i := Fulfilled newToken]\<rparr>
            | None \<Rightarrow> fail_chain i st)
      else st)"

definition run :: "client_state \<Rightarrow> client_event list \<Rightarrow> client_state" where
  "run st events = foldl step st events"

subsection \<open>The client's methods\<close>







text \<open>Two requests through the Axios instance.\<close>

definition profile_request :: api_request where
  "profile_request = \<lparr>rq_url = ''/user/profile'', rq_retry = False, rq_authorization = Some ''Bearer old''\<rparr>"

definition settings_request :: api_request where
  "settings_request = \<lparr>rq_url = ''/user/settings'', rq_retry = False, rq_authorization = Some ''Bearer old''\<rparr>"

section \<open>Properties of the rate limiter\<close>

lemma map_of_cache_remove: "map_of (cache_remove k es) k = None"
  by (induction es) (simp_all add: cache_remove_def)

lemma cache_get_twice:
  "fst (cache_get (snd (cache_get c now k)) now k) = fst (cache_get c now k)"
  by (simp add: cache_get_def map_of_cache_remove split: option.splits)

lemma rateLimit_exported:
  "rateLimit \<lparr>opt_interval = Some (60 * 1000), opt_maxRequests = Some 60,
              opt_uniqueTokenPerInterval = None\<rparr> = Inr globalLimiter"
  "rateLimit \<lparr>opt_interval = Some (60 * 1000), opt_maxRequests = Some 5,
              opt_uniqueTokenPerInterval = None\<rparr> = Inr authLimiter"
  "rateLimit \<lparr>opt_interval = Some (60 * 1000), opt_maxRequests = Some 10,
              opt_uniqueTokenPerInterval = None\<rparr> = Inr sensitiveApiLimiter"
  by (simp_all add: globalLimiter_def authLimiter_def sensitiveApiLimiter_def rateLimit_def)

lemma rateLimit_rejected_options:
  "rateLimit \<lparr>opt_interval = Some (- 1), opt_maxRequests = None,
              opt_uniqueTokenPerInterval = None\<rparr>
     = Inl (TypeError ''ttl must be a positive integer if specified'')"
  "rateLimit \<lparr>opt_interval = Some 0, opt_maxRequests = None,
              opt_uniqueTokenPerInterval = Some 0\<rparr>
     = Inl (TypeError ''At least one of max, maxSize, or ttl is required'')"
  by (simp_all add: rateLimit_def)

lemma authLimiter_fresh:
  "cache_entries (tokenCache authLimiter) = []"
  "stored_count authLimiter now token = 0"
  "maxRequests authLimiter = 5"
  by (simp_all add: authLimiter_def rateLimit_def stored_count_def cache_get_def num_or_def)

text \<open>
  \<^verbatim>\<open>check\<close> and \<^verbatim>\<open>getStatus\<close> throw the TypeError of the call of \<^verbatim>\<open>getTtl\<close>, for
  every limiter, time, limit and token.
\<close>

lemma check_throws:
  "fst (check lim now limit token) = Inl (TypeError ''tokenCache.getTtl is not a function'')"
  by (simp add: check_def LRUCache_getTtl_def Let_def case_prod_beta)

lemma getStatus_throws:
  "fst (getStatus lim now token limit_arg)
     = Inl (TypeError ''tokenCache.getTtl is not a function'')"
  by (simp add: getStatus_def LRUCache_getTtl_def Let_def case_prod_beta)

lemma tokenCache_after_check:
  "tokenCache (snd (check lim now limit token)) = snd (cache_get (tokenCache lim) now token)"
  by (simp add: check_def LRUCache_getTtl_def Let_def case_prod_beta)

lemma maxRequests_after_check: "maxRequests (snd (check lim now limit token)) = maxRequests lim"
  by (simp add: check_def LRUCache_getTtl_def Let_def case_prod_beta)

text \<open>No call of \<^verbatim>\<open>check\<close> changes the count stored for its token.\<close>

lemma stored_count_after_check:
  "stored_count (snd (check lim now limit token)) now token = stored_count lim now token"
  by (simp add: stored_count_def tokenCache_after_check cache_get_twice)

text \<open>The error that \<^verbatim>\<open>check\<close> throws is never the one with status 429.\<close>

lemma check_never_429:
  "fst (check lim now limit token) = Inl e \<Longrightarrow> err_status e = None"
  by (auto simp add: check_throws TypeError_def new_Error_def)

text \<open>
  C8 at a failing input: six calls \<^verbatim>\<open>authLimiter.check(undefined, '203.0.113.7')\<close> at
  one time on the fresh limiter, whose limit is 5. The claim has the stored count rise
  by one with each call, the first five calls return with \<^verbatim>\<open>remaining\<close> 4, 3, 2, 1, 0
  and the sixth throw the error with status 429. In the code the first call, as every
  later one, throws the TypeError of \<^verbatim>\<open>tokenCache.getTtl\<close>, which the statement that
  stores the count follows: the stored count is 0 after the first call and after the
  sixth, and the error of the sixth call has no status.
\<close>

theorem check_throws_TypeError_before_storing:
  "check authLimiter 0 None ''203.0.113.7''
     = (Inl (TypeError ''tokenCache.getTtl is not a function''), authLimiter)
   \<and> stored_count (snd (check authLimiter 0 None ''203.0.113.7'')) 0 ''203.0.113.7'' = 0
   \<and> checks authLimiter (replicate 5 (0, None)) ''203.0.113.7'' = authLimiter
   \<and> fst (check (checks authLimiter (replicate 5 (0, None)) ''203.0.113.7'') 0 None
             ''203.0.113.7'')
       = Inl (TypeError ''tokenCache.getTtl is not a function'')
   \<and> err_status (TypeError ''tokenCache.getTtl is not a function'') \<noteq> Some 429"
proof -
  have one: "check authLimiter 0 None ''203.0.113.7''
               = (Inl (TypeError ''tokenCache.getTtl is not a function''), authLimiter)"
    by (simp add: check_def LRUCache_getTtl_def Let_def cache_get_def authLimiter_def
          rateLimit_def)
  have five: "checks authLimiter (replicate 5 (0, None)) ''203.0.113.7'' = authLimiter"
    by (simp add: checks_def one numeral_nat)
  show ?thesis
    by (simp add: one five authLimiter_fresh TypeError_def new_Error_def)
qed


text \<open>
  C1 at a failing input: the first request of a client through
  \<^verbatim>\<open>globalLimiter.withRateLimit(handler)\<close> with the default options. The count is 1 and
  the limit 60, so the handler should run; but \<^verbatim>\<open>this\<close> is \<^verbatim>\<open>undefined\<close>, reading
  \<^verbatim>\<open>this.check\<close> throws a TypeError, and the \<^verbatim>\<open>catch\<close> block answers with status 500.
  The result is the same for every handler: the handler is not called, and no call is
  counted.
\<close>

theorem withRateLimit_module_instance_answers_500:
  "withRateLimit module_call_this globalLimiter handler
     \<lparr>wo_keyGenerator = None, wo_limit = None, wo_headers = None\<rparr> req res now
   = (Inr FromJson,
      res\<lparr>res_status := Some 500,
          res_body := Some \<lparr>body_error = ''Internal Server Error'',
                            body_message = ''An unexpected error occurred'',
                            body_retryAfter = None\<rparr>\<rparr>,
      globalLimiter)"
  by (simp add: withRateLimit_def withRateLimit_try_def module_call_this_def
        default_keyGenerator_def TypeError_def new_Error_def status_json_def Let_def)

text \<open>
  The same holds for every limiter, every option and every request of a module-level
  instance: the wrapped handler never returns the handler's result.
\<close>

lemma withRateLimit_module_instance_never_calls_handler:
  "fst (withRateLimit module_call_this lim handler options req res now) \<noteq> Inr (FromHandler v)"
  by (simp add: withRateLimit_def withRateLimit_try_def module_call_this_def Let_def
        split: option.splits key_generator.splits sum.splits)

text \<open>
  Were \<^verbatim>\<open>this\<close> the limiter itself, the request would be answered with status 500 all
  the same, by the TypeError that \<^verbatim>\<open>check\<close> throws; the handler is not called.
\<close>

lemma withRateLimit_bound_this_answers_500:
  "withRateLimit (ThisObject (Some check)) lim handler
     \<lparr>wo_keyGenerator = Some (KeyValue token), wo_limit = l, wo_headers = h\<rparr> req res now
   = (Inr FromJson,
      res\<lparr>res_status := Some 500,
          res_body := Some \<lparr>body_error = ''Internal Server Error'',
                            body_message = ''An unexpected error occurred'',
                            body_retryAfter = None\<rparr>\<rparr>,
      snd (check lim now (Some (case l of None \<Rightarrow> maxRequests lim | Some v \<Rightarrow> v)) token))"
  by (simp add: withRateLimit_def withRateLimit_try_def Let_def check_def LRUCache_getTtl_def
        case_prod_beta TypeError_def new_Error_def status_json_def)

text \<open>
  The branch of the \<^verbatim>\<open>catch\<close> block for status 429 is reached only by an error of the
  \<^verbatim>\<open>keyGenerator\<close> that carries that status; it ends in the ReferenceError.
\<close>

lemma withRateLimit_429_branch:
  "fst (withRateLimit this lim handler
          \<lparr>wo_keyGenerator =
             Some (KeyFunction (\<lambda>r. Inl ((new_Error ''busy'')\<lparr>err_status := Some 429\<rparr>))),
           wo_limit = l, wo_headers = h\<rparr> req res now)
     = Inl (ReferenceError ''headers is not defined'')"
  by (simp add: withRateLimit_def withRateLimit_try_def Let_def)

text \<open>
  A handler that returns a rejected promise is not caught by the wrapper, whose
  \<^verbatim>\<open>return handler(req, res)\<close> does not await it: with a \<^verbatim>\<open>check\<close> that returns, the
  wrapped handler rejects with the handler's error and sends no response of its own.
\<close>

lemma withRateLimit_rejection_passes_catch:
  assumes "this_check lim now (Some (maxRequests lim)) token = (Inr result, lim')"
  shows "withRateLimit (ThisObject (Some this_check)) lim (\<lambda>rq rs. (Inr (RejectedPromise e), rs))
           \<lparr>wo_keyGenerator = Some (KeyValue token), wo_limit = None, wo_headers = Some False\<rparr>
           req res now
         = (Inl e, res, lim')"
  using assms by (simp add: withRateLimit_def withRateLimit_try_def Let_def)

section \<open>Properties of the CSRF wrapper\<close>

lemma csrf_catch_fields:
  "res_status (csrf_catch e res) = Some (if err_code e = Some ''CSRF_TOKEN_INVALID'' then 403 else 500)"
  "map_option body_error (res_body (csrf_catch e res))
     = Some (if err_code e = Some ''CSRF_TOKEN_INVALID'' then ''Invalid CSRF token''
             else ''Internal server error'')"
  by (simp_all add: csrf_catch_def status_json_def)

text \<open>
  C6, as the specification states it: an error other than the middleware's rejection with
  the code \<^verbatim>\<open>CSRF_TOKEN_INVALID\<close> yields a 500 response, and the wrapped handler is
  not invoked in an error case. It fails when the validation passes and the handler
  itself throws: the response is the 500 response, and the handler was invoked.
\<close>

theorem withCsrfApiRoute_handler_error_answered_500:
  "withCsrfApiRoute csrf_accepts plain_session throwing_handler empty_request empty_response
   = (Inr FromJson,
      empty_response\<lparr>res_status := Some 500,
                      res_body := Some \<lparr>body_error = ''Internal server error'',
                                        body_message = ''An unexpected error occurred'',
                                        body_retryAfter = None\<rparr>\<rparr>,
      True)"
  by (simp add: withCsrfApiRoute_def csrf_accepts_def plain_session_def throwing_handler_def
        csrf_catch_def new_Error_def status_json_def)

text \<open>
  C6, amended. When the CSRF middleware rejects, the session-wrapped handler is not
  invoked and the response has status 403 with the error \<^verbatim>\<open>Invalid CSRF token\<close> if the
  error's code is \<^verbatim>\<open>CSRF_TOKEN_INVALID\<close>, and status 500 with the error
  \<^verbatim>\<open>Internal server error\<close> otherwise. When the validation passes, the session-wrapped
  handler is invoked; its result is returned if it returns, and an error it throws is
  answered in the same way as a rejection of the middleware.
\<close>

theorem withCsrfApiRoute_outcomes:
  "(let r = withCsrfApiRoute csrfMiddleware wrap handler req res;
        response = fst (snd r);
        invoked = snd (snd r)
    in case csrfMiddleware req res of
         (Inl e, res1) \<Rightarrow>
           \<not> invoked \<and> fst r = Inr FromJson
           \<and> res_status response = Some (if err_code e = Some ''CSRF_TOKEN_INVALID'' then 403 else 500)
           \<and> map_option body_error (res_body response)
               = Some (if err_code e = Some ''CSRF_TOKEN_INVALID'' then ''Invalid CSRF token''
                       else ''Internal server error'')
       | (Inr u, res1) \<Rightarrow>
           invoked \<and>
           (case wrap handler req res1 of
              (Inr v, res2) \<Rightarrow> fst r = Inr (FromHandler v) \<and> response = res2
            | (Inl e, res2) \<Rightarrow>
                fst r = Inr FromJson
                \<and> res_status response
                    = Some (if err_code e = Some ''CSRF_TOKEN_INVALID'' then 403 else 500)
                \<and> map_option body_error (res_body response)
                    = Some (if err_code e = Some ''CSRF_TOKEN_INVALID'' then ''Invalid CSRF token''
                            else ''Internal server error'')))"
  by (simp add: withCsrfApiRoute_def Let_def csrf_catch_fields split: prod.splits sum.splits)

theorem withCsrfApiRoute_outcomes_witness:
  "fst (withCsrfApiRoute csrf_accepts plain_session ok_handler empty_request empty_response)
     = Inr (FromHandler ''done'')
   \<and> snd (snd (withCsrfApiRoute csrf_accepts plain_session ok_handler empty_request empty_response))
   \<and> res_status (fst (snd (withCsrfApiRoute csrf_rejects plain_session ok_handler empty_request
                              empty_response))) = Some 403
   \<and> \<not> snd (snd (withCsrfApiRoute csrf_rejects plain_session ok_handler empty_request
                     empty_response))"
  using withCsrfApiRoute_outcomes [of csrf_accepts plain_session ok_handler empty_request empty_response]
    withCsrfApiRoute_outcomes [of csrf_rejects plain_session ok_handler empty_request empty_response]
  by (simp add: Let_def csrf_accepts_def csrf_rejects_def plain_session_def ok_handler_def
        new_Error_def)

section \<open>Properties of the module secure-input.js\<close>

text \<open>
  C3 at its failing input: loading secure-input.js with every import provided. The
  declarations before \<^verbatim>\<open>styles\<close> evaluate; the initialiser of \<^verbatim>\<open>styles\<close> reads the
  identifier \<^verbatim>\<open>a8\<close>, which nothing declares, and the load stops with a
  ReferenceError.
\<close>

theorem secure_input_fails_to_load:
  "load_module secure_input_imports secure_input_declarations
     = Inl (ReferenceError ''a8 is not defined'')"
  by (simp add: secure_input_imports_def secure_input_declarations_def declarations_with_def
        styles_init_def styles_init_with_def Validators_init_def Masks_init_def z_string_def)

text \<open>With the number 8 in the place of the identifier, the module loads.\<close>

lemma secure_input_loads_with_number:
  "load_module secure_input_imports (declarations_with (styles_init_with (Num 8)))
     = Inr (secure_input_imports @ [''SecureInput'', ''Validators'', ''Masks'', ''styles''])"
  by (simp add: secure_input_imports_def declarations_with_def
        styles_init_with_def Validators_init_def Masks_init_def z_string_def)

section \<open>Properties of the import graph\<close>

text \<open>
  C2, as the specification states it: no example file imports a function or a value of
  another. The authentication provider imports \<^verbatim>\<open>checkBiometricAvailability\<close> from the
  biometric authentication module, and calls it.
\<close>

theorem auth_provider_depends_on_biometric_auth:
  "depends_on AuthProvider BiometricAuth"
  by (simp add: depends_on_def resolve_def)

text \<open>
  C2, amended. Three example files import from other example files: the authentication
  provider from the API client and the biometric authentication module, the API client
  from the certificate pinning module, and the API route from the authentication
  configuration, the input validation and the rate limiter. Every other example file
  imports third-party packages only.
\<close>

theorem example_file_dependencies:
  "dependencies f =
     (case f of
        AuthProvider \<Rightarrow> [ApiClient, BiometricAuth]
      | ApiClient \<Rightarrow> [CertificatePinning]
      | ApiRoute \<Rightarrow> [AuthConfig, InputValidation, RateLimit]
      | _ \<Rightarrow> [])"
  by (cases f) (simp_all add: dependencies_def all_example_files_def depends_on_def resolve_def)

theorem example_file_dependencies_witness:
  "dependencies SecureInput = [] \<and> dependencies RateLimit = []
   \<and> dependencies ApiClient = [CertificatePinning]"
  using example_file_dependencies [of SecureInput] example_file_dependencies [of RateLimit]
    example_file_dependencies [of ApiClient]
  by simp

section \<open>Properties of secureFetch\<close>

text \<open>
  \<^verbatim>\<open>findPinnedDomain\<close> finds the configuration that the specification describes, and
  besides it the members that \<^verbatim>\<open>PINNED_DOMAINS\<close> inherits.
\<close>

lemma findPinnedDomain_char:
  "findPinnedDomain domain =
     (case pinning_config_for domain of
        Some config \<Rightarrow> Own config
      | None \<Rightarrow> if domain \<in> set Object_prototype_keys then Inherited domain else Absent)"
  by (simp add: findPinnedDomain_def pinning_config_for_def get_property_def PINNED_DOMAINS_def
        Object_prototype_keys_def endsWith_def)

lemma secureFetch_offline:
  "env_isConnected env = Inr False \<Longrightarrow>
     secureFetch env url options timeout_arg = Inl (new_Error ''No internet connection'')"
  by (simp add: secureFetch_def secureFetch_try_def secureFetch_catch_def new_Error_def)

lemma secureFetch_pinned:
  assumes "env_isConnected env = Inr True" and "env_hostname env url = Inr domain"
    and "pinning_config_for domain = Some config"
  shows "secureFetch env url options timeout_arg
           = (case env_sslPinningFetch env url
                     \<lparr>po_method = str_or (fo_method options) ''GET'',
                      po_timeoutInterval = (case timeout_arg of None \<Rightarrow> DEFAULT_TIMEOUT | Some t \<Rightarrow> t),
                      po_headers = (case fo_headers options of None \<Rightarrow> [] | Some h \<Rightarrow> h),
                      po_body = fo_body options,
                      po_sslPinning_certs = Some (certs config),
                      po_trustkit_includeSubdomains =
                        (case env_platform env of
                           Android \<Rightarrow> Some (Some (includeSubdomains config))
                         | IOS \<Rightarrow> None)\<rparr> of
                Inl e \<Rightarrow> Inl (secureFetch_catch e)
              | Inr response \<Rightarrow> Inr (PinnedResponse response))"
proof -
  have f: "findPinnedDomain domain = Own config"
    using assms(3) by (simp add: findPinnedDomain_char)
  show ?thesis
    unfolding secureFetch_def secureFetch_try_def
    by (simp only: assms(1,2) f Let_def sum.case if_True not_True_eq_False if_False
          property.simps property.case)
       (simp split: sum.splits platform.splits)
qed

lemma secureFetch_plain:
  assumes "env_isConnected env = Inr True" and "env_hostname env url = Inr domain"
    and "pinning_config_for domain = None" and "domain \<notin> set Object_prototype_keys"
  shows "secureFetch env url options timeout_arg
           = (case env_fetch env url
                     \<lparr>fo_method = fo_method options, fo_headers = fo_headers options,
                      fo_body = fo_body options,
                      pf_timeout = (case timeout_arg of None \<Rightarrow> DEFAULT_TIMEOUT | Some t \<Rightarrow> t)\<rparr> of
                Inl e \<Rightarrow> Inl (secureFetch_catch e)
              | Inr response \<Rightarrow>
                  (case processResponse response of
                     Inl e \<Rightarrow> Inl (secureFetch_catch e)
                   | Inr d \<Rightarrow> Inr (Processed d)))"
proof -
  have f: "findPinnedDomain domain = Absent"
    using assms(3,4) by (simp add: findPinnedDomain_char)
  show ?thesis
    unfolding secureFetch_def secureFetch_try_def
    by (simp only: assms(1,2) f Let_def sum.case if_True not_True_eq_False if_False simp_thms)
       (simp split: sum.splits)
qed


text \<open>
  C5, as the specification states it: every URL whose host name has a pinning
  configuration is forwarded to the pinning library. On a device without a connection the
  URL of the pinned host \<^verbatim>\<open>api.example.com\<close> is not forwarded: the guard at the head of
  the function throws first.
\<close>

theorem secureFetch_offline_makes_no_request:
  "pinning_config_for ''api.example.com'' \<noteq> None
   \<and> hostname_of ''https://api.example.com/users'' = Inr ''api.example.com''
   \<and> secureFetch (example_env False) ''https://api.example.com/users'' no_options None
       = Inl (new_Error ''No internet connection'')"
  by (simp add: pinning_config_for_def PINNED_DOMAINS_def hostname_of_def ascii_lower_def Let_def secureFetch_def
        secureFetch_try_def example_env_def secureFetch_catch_def new_Error_def)

text \<open>
  C5, amended. Without a connection \<^verbatim>\<open>secureFetch\<close> throws
  \<^verbatim>\<open>No internet connection\<close> and makes no request. With a connection and a URL that
  parses: when the host name has a pinning configuration (an entry of
  \<^verbatim>\<open>PINNED_DOMAINS\<close>, or an entry with \<^verbatim>\<open>includeSubdomains\<close> of which it is a
  subdomain), the result is that of the pinning library's \<^verbatim>\<open>fetch\<close>, called with the
  URL, the entry's certificate hashes, the method (\<^verbatim>\<open>GET\<close> by default), the headers,
  the body and the timeout, and its response is returned as it is; when the host name
  has no configuration and is not the name of a member inherited from
  \<^verbatim>\<open>Object.prototype\<close>, the result is that of the plain \<^verbatim>\<open>fetch\<close>, called with the
  options and the timeout, passed through \<^verbatim>\<open>processResponse\<close>. An error of either
  goes through the \<^verbatim>\<open>catch\<close> block. No certificate is verified by
  \<^verbatim>\<open>secureFetch\<close> itself.
\<close>

theorem secureFetch_routes:
  "(env_isConnected env = Inr False \<longrightarrow>
      secureFetch env url options timeout_arg = Inl (new_Error ''No internet connection''))
   \<and> (env_isConnected env = Inr True \<and> env_hostname env url = Inr domain \<longrightarrow>
        (let timeout = (case timeout_arg of None \<Rightarrow> DEFAULT_TIMEOUT | Some t \<Rightarrow> t)
         in case pinning_config_for domain of
              Some config \<Rightarrow>
                secureFetch env url options timeout_arg
                  = (case env_sslPinningFetch env url
                            \<lparr>po_method = str_or (fo_method options) ''GET'',
                             po_timeoutInterval = timeout,
                             po_headers = (case fo_headers options of None \<Rightarrow> [] | Some h \<Rightarrow> h),
                             po_body = fo_body options,
                             po_sslPinning_certs = Some (certs config),
                             po_trustkit_includeSubdomains =
                               (case env_platform env of
                                  Android \<Rightarrow> Some (Some (includeSubdomains config))
                                | IOS \<Rightarrow> None)\<rparr> of
                       Inl e \<Rightarrow> Inl (secureFetch_catch e)
                     | Inr response \<Rightarrow> Inr (PinnedResponse response))
            | None \<Rightarrow>
                domain \<in> set Object_prototype_keys \<or>
                secureFetch env url options timeout_arg
                  = (case env_fetch env url
                            \<lparr>fo_method = fo_method options, fo_headers = fo_headers options,
                             fo_body = fo_body options, pf_timeout = timeout\<rparr> of
                       Inl e \<Rightarrow> Inl (secureFetch_catch e)
                     | Inr response \<Rightarrow>
                         (case processResponse response of
                            Inl e \<Rightarrow> Inl (secureFetch_catch e)
                          | Inr d \<Rightarrow> Inr (Processed d)))))"
proof (intro conjI impI)
  assume "env_isConnected env = Inr False"
  then show "secureFetch env url options timeout_arg = Inl (new_Error ''No internet connection'')"
    by (rule secureFetch_offline)
next
  assume a: "env_isConnected env = Inr True \<and> env_hostname env url = Inr domain"
  show "(let timeout = (case timeout_arg of None \<Rightarrow> DEFAULT_TIMEOUT | Some t \<Rightarrow> t)
         in case pinning_config_for domain of
              Some config \<Rightarrow>
                secureFetch env url options timeout_arg
                  = (case env_sslPinningFetch env url
                            \<lparr>po_method = str_or (fo_method options) ''GET'',
                             po_timeoutInterval = timeout,
                             po_headers = (case fo_headers options of None \<Rightarrow> [] | Some h \<Rightarrow> h),
                             po_body = fo_body options,
                             po_sslPinning_certs = Some (certs config),
                             po_trustkit_includeSubdomains =
                               (case env_platform env of
                                  Android \<Rightarrow> Some (Some (includeSubdomains config))
                                | IOS \<Rightarrow> None)\<rparr> of
                       Inl e \<Rightarrow> Inl (secureFetch_catch e)
                     | Inr response \<Rightarrow> Inr (PinnedResponse response))
            | None \<Rightarrow>
                domain \<in> set Object_prototype_keys \<or>
                secureFetch env url options timeout_arg
                  = (case env_fetch env url
                            \<lparr>fo_method = fo_method options, fo_headers = fo_headers options,
                             fo_body = fo_body options, pf_timeout = timeout\<rparr> of
                       Inl e \<Rightarrow> Inl (secureFetch_catch e)
                     | Inr response \<Rightarrow>
                         (case processResponse response of
                            Inl e \<Rightarrow> Inl (secureFetch_catch e)
                          | Inr d \<Rightarrow> Inr (Processed d))))"
  proof (cases "pinning_config_for domain")
    case None
    show ?thesis
    proof (cases "domain \<in> set Object_prototype_keys")
      case True
      with None show ?thesis by (simp only: Let_def option.case simp_thms)
    next
      case False
      from a have c: "env_isConnected env = Inr True" and h: "env_hostname env url = Inr domain"
        by simp_all
      show ?thesis
        using secureFetch_plain [OF c h None False, of options timeout_arg]
        by (simp only: Let_def None option.case simp_thms)
    qed
  next
    case (Some config)
    from a have c: "env_isConnected env = Inr True" and h: "env_hostname env url = Inr domain"
      by simp_all
    show ?thesis
      using secureFetch_pinned [OF c h Some, of options timeout_arg]
      by (simp only: Let_def Some option.case)
  qed
qed

text \<open>
  The host names left out above: \<^verbatim>\<open>PINNED_DOMAINS['constructor']\<close> is the inherited
  \<^verbatim>\<open>Object\<close> function, which is truthy, so the request goes to the pinning library
  with \<^verbatim>\<open>certs\<close> undefined although the host has no pinning configuration.
\<close>

lemma findPinnedDomain_constructor: "findPinnedDomain ''constructor'' = Inherited ''constructor''"
  by (simp add: findPinnedDomain_def get_property_def PINNED_DOMAINS_def Object_prototype_keys_def)

lemma hostname_of_constructor: "hostname_of ''https://constructor/'' = Inr ''constructor''"
  by (simp add: hostname_of_def ascii_lower_def Let_def)


lemma secureFetch_inherited_member_is_pinned_without_certs:
  "pinning_config_for ''constructor'' = None
   \<and> secureFetch (example_env True) ''https://constructor/'' no_options None
       = Inr (PinnedResponse [])"
proof -
  have p: "pinning_config_for ''constructor'' = None"
    by (simp add: pinning_config_for_def PINNED_DOMAINS_def endsWith_def)
  have "secureFetch_try (example_env True) ''https://constructor/'' no_options DEFAULT_TIMEOUT
          = Inr (PinnedResponse [])"
    by (simp add: secureFetch_try_def example_env_def hostname_of_constructor
          findPinnedDomain_constructor pinning_server_def)
  then show ?thesis
    using p by (simp add: secureFetch_def)
qed

lemma example_hosts:
  "hostname_of ''https://api.example.com/users'' = Inr ''api.example.com''"
  "hostname_of ''https://shop.example.org/cart'' = Inr ''shop.example.org''"
  "pinning_config_for ''api.example.com''
     = Some \<lparr>includeSubdomains = True,
             certs = [''sha256/AAAAAAAAAAAAAAAAAAAAAAAAAAAAAAAAAAAAAAAAAAA='',
                      ''sha256/BBBBBBBBBBBBBBBBBBBBBBBBBBBBBBBBBBBBBBBBBBB='']\<rparr>"
  "pinning_config_for ''shop.example.org'' = None"
  "''shop.example.org'' \<notin> set Object_prototype_keys"
  by (simp_all add: hostname_of_def ascii_lower_def Let_def pinning_config_for_def PINNED_DOMAINS_def endsWith_def
        Object_prototype_keys_def)

theorem secureFetch_routes_witness:
  "secureFetch (example_env False) ''https://api.example.com/users'' no_options None
     = Inl (new_Error ''No internet connection'')
   \<and> secureFetch (example_env True) ''https://api.example.com/users'' no_options None
     = Inr (PinnedResponse [''sha256/AAAAAAAAAAAAAAAAAAAAAAAAAAAAAAAAAAAAAAAAAAA='',
                            ''sha256/BBBBBBBBBBBBBBBBBBBBBBBBBBBBBBBBBBBBBBBBBBB=''])
   \<and> secureFetch (example_env True) ''https://shop.example.org/cart'' no_options None
     = Inr (Processed ''plain body'')"
proof -
  have off: "env_isConnected (example_env False) = Inr False"
    and on: "env_isConnected (example_env True) = Inr True"
    and host: "env_hostname (example_env True) = hostname_of"
    and srv: "env_sslPinningFetch (example_env True) = pinning_server"
      "env_fetch (example_env True) = plain_server"
    by (simp_all add: example_env_def)
  have 1: "secureFetch (example_env False) ''https://api.example.com/users'' no_options None
             = Inl (new_Error ''No internet connection'')"
    using secureFetch_routes [of "example_env False" "''https://api.example.com/users''"
        no_options None "''api.example.com''"] off
    by simp
  have 2: "secureFetch (example_env True) ''https://api.example.com/users'' no_options None
     = Inr (PinnedResponse [''sha256/AAAAAAAAAAAAAAAAAAAAAAAAAAAAAAAAAAAAAAAAAAA='',
                            ''sha256/BBBBBBBBBBBBBBBBBBBBBBBBBBBBBBBBBBBBBBBBBBB=''])"
    using secureFetch_routes [of "example_env True" "''https://api.example.com/users''"
        no_options None "''api.example.com''"] on
    by (simp add: host srv example_hosts Let_def pinning_server_def)
  have 3: "secureFetch (example_env True) ''https://shop.example.org/cart'' no_options None
     = Inr (Processed ''plain body'')"
    using secureFetch_routes [of "example_env True" "''https://shop.example.org/cart''"
        no_options None "''shop.example.org''"] on example_hosts(5)
    by (simp add: host srv example_hosts(2,4) Let_def plain_server_def processResponse_def
          str_or_def)
  from 1 2 3 show ?thesis by simp
qed

section \<open>Properties of the permission history\<close>

lemma list_all_update:
  "list_all P al \<Longrightarrow> P (k, v) \<Longrightarrow> list_all P (AList.update k v al)"
  by (induction al) auto

lemma length_slice_last5: "length (slice_last5 xs) \<le> 5"
  by (simp add: slice_last5_def)

lemma kept_is_slice:
  "(if length xs > 5 then slice_last5 xs else xs) = slice_last5 xs"
  by (simp add: slice_last5_def)

lemma savePermissionHistory_try_Inr:
  assumes "savePermissionHistory_try env stored t r ts = Inr h'"
  shows "\<exists>stamp. toISOString ts = Inr stamp
           \<and> h' = AList.update t
                    (slice_last5 (requests_of stored t @ [\<lparr>he_result = r, he_timestamp = stamp\<rparr>]))
                    (case stored of None \<Rightarrow> [] | Some h \<Rightarrow> h)"
  using assms
  by (auto simp: savePermissionHistory_try_def Let_def kept_is_slice requests_of_def
        get_property_def
        split: option.splits sum.splits property.splits if_splits)

lemma savePermissionHistory_try_succeeds:
  assumes "getItem_rejects env = None" and "setItem_rejects env = None"
    and "toISOString ts = Inr stamp" and "t \<notin> set Object_prototype_keys"
  shows "savePermissionHistory_try env stored t r ts
           = Inr (AList.update t
                    (slice_last5 (requests_of stored t @ [\<lparr>he_result = r, he_timestamp = stamp\<rparr>]))
                    (case stored of None \<Rightarrow> [] | Some h \<Rightarrow> h))"
  using assms
  by (simp add: savePermissionHistory_try_def Let_def kept_is_slice requests_of_def
        get_property_def split: option.splits)

lemma requests_of_update:
  "requests_of (Some (AList.update t es h)) t' = (if t' = t then es else requests_of (Some h) t')"
  by (simp add: requests_of_def update_conv')

lemma requests_of_empty: "requests_of (Some []) t = requests_of None t"
  by (simp add: requests_of_def)

lemma history_of_stored:
  "requests_of (Some (case stored of None \<Rightarrow> [] | Some h \<Rightarrow> h)) t = requests_of stored t"
  by (simp add: requests_of_def split: option.splits)

text \<open>
  C10. Starting from a stored history with at most five requests under every permission
  type, \<^verbatim>\<open>savePermissionHistory\<close> leaves a history with the same bound, whatever the
  storage and the time stamp do. The most recent requests are retained: the requests
  under the permission type are then the last five of the earlier ones followed by the
  new one, or the storage is unchanged because an error was swallowed; with a working
  storage, a valid date and a permission type that is not a member inherited from
  \<^verbatim>\<open>Object.prototype\<close> they are the former. The requests under every other
  permission type stay as they were.
\<close>

theorem savePermissionHistory_keeps_bound:
  assumes "history_bounded stored"
  shows "history_bounded (savePermissionHistory env stored t r ts)
   \<and> (case toISOString ts of
        Inl e \<Rightarrow> savePermissionHistory env stored t r ts = stored
      | Inr stamp \<Rightarrow>
          (let latest = slice_last5 (requests_of stored t @ [\<lparr>he_result = r, he_timestamp = stamp\<rparr>])
           in (savePermissionHistory env stored t r ts = stored
               \<or> requests_of (savePermissionHistory env stored t r ts) t = latest)
            \<and> (getItem_rejects env = None \<and> setItem_rejects env = None
                 \<and> t \<notin> set Object_prototype_keys
                \<longrightarrow> requests_of (savePermissionHistory env stored t r ts) t = latest)))
   \<and> (t' \<noteq> t \<longrightarrow> requests_of (savePermissionHistory env stored t r ts) t' = requests_of stored t')"
proof (cases "savePermissionHistory_try env stored t r ts")
  case (Inl e)
  then have same: "savePermissionHistory env stored t r ts = stored"
    by (simp add: savePermissionHistory_def)
  have "toISOString ts = Inr stamp \<Longrightarrow> getItem_rejects env = None \<Longrightarrow> setItem_rejects env = None
          \<Longrightarrow> t \<notin> set Object_prototype_keys \<Longrightarrow> False" for stamp
    using savePermissionHistory_try_succeeds [of env ts stamp t stored r] Inl by simp
  then show ?thesis
    using assms same by (auto simp: Let_def split: sum.splits)
next
  case (Inr h')
  then obtain stamp where st: "toISOString ts = Inr stamp"
    and h': "h' = AList.update t
                    (slice_last5 (requests_of stored t @ [\<lparr>he_result = r, he_timestamp = stamp\<rparr>]))
                    (case stored of None \<Rightarrow> [] | Some h \<Rightarrow> h)"
    using savePermissionHistory_try_Inr by blast
  have res: "savePermissionHistory env stored t r ts = Some h'"
    using Inr by (simp add: savePermissionHistory_def)
  have b0: "list_all (\<lambda>p. length (snd p) \<le> 5) (case stored of None \<Rightarrow> [] | Some h \<Rightarrow> h)"
    using assms by (simp add: history_bounded_def split: option.splits)
  have bounded: "history_bounded (Some h')"
    unfolding h' history_bounded_def option.case
    by (rule list_all_update [OF b0]) (simp add: length_slice_last5)
  show ?thesis
    using bounded st
    by (simp add: res Let_def) (simp add: h' requests_of_update history_of_stored)
qed


theorem savePermissionHistory_keeps_bound_witness:
  "history_bounded camera_history
   \<and> history_bounded
        (savePermissionHistory working_storage camera_history ''CAMERA'' ''denied''
           (ValidDate ''2024-01-06T00:00:00.000Z''))
   \<and> requests_of
        (savePermissionHistory working_storage camera_history ''CAMERA'' ''denied''
           (ValidDate ''2024-01-06T00:00:00.000Z'')) ''CAMERA''
       = [denied_on ''2024-01-02T00:00:00.000Z'', denied_on ''2024-01-03T00:00:00.000Z'',
          denied_on ''2024-01-04T00:00:00.000Z'', denied_on ''2024-01-05T00:00:00.000Z'',
          denied_on ''2024-01-06T00:00:00.000Z'']"
proof -
  have h: "history_bounded camera_history"
    by (simp add: history_bounded_def camera_history_def)
  have k: "''CAMERA'' \<notin> set Object_prototype_keys"
    by (simp add: Object_prototype_keys_def)
  have r: "requests_of camera_history ''CAMERA''
             = [denied_on ''2024-01-01T00:00:00.000Z'', denied_on ''2024-01-02T00:00:00.000Z'',
                denied_on ''2024-01-03T00:00:00.000Z'', denied_on ''2024-01-04T00:00:00.000Z'',
                denied_on ''2024-01-05T00:00:00.000Z'']"
    by (simp add: requests_of_def camera_history_def)
  show ?thesis
    using h k
      savePermissionHistory_keeps_bound [OF h, of working_storage "''CAMERA''" "''denied''"
        "ValidDate ''2024-01-06T00:00:00.000Z''" "''LOCATION''"]
    by (simp add: toISOString_def working_storage_def Let_def r slice_last5_def denied_on_def)
qed

section \<open>Properties of the XOR cipher\<close>

subsection \<open>The loop\<close>

lemma xor_loop_eq:
  "xor_loop t key i result
     = result @ map (\<lambda>j. (t ! j) XOR key_code key j) [i..<length t]"
proof (induction t key i result rule: xor_loop.induct)
  case (1 t key i result)
  show ?case
  proof (cases "i < length t")
    case True
    then show ?thesis
      using "1.IH" [OF True]
      by (subst xor_loop.simps) (simp add: upt_conv_Cons)
  next
    case False
    then show ?thesis by (subst xor_loop.simps) simp
  qed
qed

lemma xor_loop_start:
  "xor_loop t key 0 [] = map (\<lambda>j. (t ! j) XOR key_code key j) [0..<length t]"
  by (simp add: xor_loop_eq)

lemma length_xor_loop: "length (xor_loop t key 0 []) = length t"
  by (simp add: xor_loop_start)

lemma xor_loop_involution: "xor_loop (xor_loop t key 0 []) key 0 [] = t"
  by (rule nth_equalityI) (simp_all add: xor_loop_start word_bw_assocs)

subsection \<open>Surrogates under XOR with a key below 128\<close>

lemma key_code_small:
  assumes "\<forall>k \<in> set key. unat k < 128"
  shows "unat (key_code key i) < 128"
  using assms by (simp add: key_code_def)

lemma unat_xor_div:
  fixes c k :: "16 word"
  assumes "unat k < 2 ^ n"
  shows "unat (c XOR k) div 2 ^ n = unat c div 2 ^ n"
proof -
  have "drop_bit n (unat k) = 0"
    using assms by (simp add: drop_bit_eq_div)
  then have "drop_bit n (unat (c XOR k)) = drop_bit n (unat c)"
    by (simp add: unsigned_xor_eq drop_bit_xor flip: unat_drop_bit_eq)
  then show ?thesis
    by (simp add: drop_bit_eq_div)
qed

lemma is_high_surrogate_div: "is_high_surrogate c \<longleftrightarrow> unat c div 1024 = 54"
  unfolding is_high_surrogate_def by auto

lemma is_low_surrogate_div: "is_low_surrogate c \<longleftrightarrow> unat c div 1024 = 55"
  unfolding is_low_surrogate_def by auto

lemma surrogate_xor:
  assumes "unat k < 128"
  shows "is_high_surrogate (c XOR k) = is_high_surrogate c"
    and "is_low_surrogate (c XOR k) = is_low_surrogate c"
proof -
  have "unat k < 2 ^ 10" using assms by simp
  then have "unat (c XOR k) div 2 ^ 10 = unat c div 2 ^ 10"
    by (rule unat_xor_div)
  then have "unat (c XOR k) div 1024 = unat c div 1024"
    by simp
  then show "is_high_surrogate (c XOR k) = is_high_surrogate c"
    and "is_low_surrogate (c XOR k) = is_low_surrogate c"
    by (simp_all only: is_high_surrogate_div is_low_surrogate_div)
qed

lemma well_formed_same_classes:
  "list_all2 same_class xs ys \<Longrightarrow> well_formed xs = well_formed ys"
proof (induction xs arbitrary: ys rule: well_formed.induct)
  case 1
  then show ?case by simp
next
  case (2 c)
  then obtain y where "ys = [y]" "same_class c y"
    by (auto simp: list_all2_Cons1)
  then show ?case by (simp add: same_class_def)
next
  case (3 c d rest)
  from "3.prems" obtain y z zs where ys: "ys = y # z # zs"
    and cy: "same_class c y" and dz: "same_class d z" and r: "list_all2 same_class rest zs"
    by (auto simp: list_all2_Cons1)
  show ?case
  proof (cases "is_high_surrogate c")
    case True
    have "well_formed rest = well_formed zs"
      using "3.IH"(1) [OF True r] .
    then show ?thesis
      using True cy dz ys by (simp add: same_class_def)
  next
    case False
    have "list_all2 same_class (d # rest) (z # zs)"
      using dz r by simp
    then have "well_formed (d # rest) = well_formed (z # zs)"
      using "3.IH"(2) [OF False] by blast
    then show ?thesis
      using False cy ys by (simp add: same_class_def)
  qed
qed

lemma well_formed_xor_loop:
  assumes "\<forall>k \<in> set key. unat k < 128"
  shows "well_formed (xor_loop t key 0 []) = well_formed t"
proof (rule well_formed_same_classes)
  show "list_all2 same_class (xor_loop t key 0 []) t"
    using key_code_small [OF assms]
    by (simp add: list_all2_conv_all_nth xor_loop_start surrogate_xor same_class_def)
qed

subsection \<open>Decoding what the encoder wrote\<close>

lemma mod_offset:
  fixes a :: nat
  assumes "a < n"
  shows "(q * n + a) mod n = a"
  using assms by simp

lemma mod_facts:
  fixes a b :: nat
  shows "a < 32 \<Longrightarrow> (192 + a) mod 32 = a"
    and "a < 16 \<Longrightarrow> (224 + a) mod 16 = a"
    and "a < 8 \<Longrightarrow> (240 + a) mod 8 = a"
    and "b < 64 \<Longrightarrow> (128 + b) mod 64 = b"
  using mod_offset [of a 32 6] mod_offset [of a 16 14] mod_offset [of a 8 30]
    mod_offset [of b 64 2]
  by simp_all

lemma decode1:
  "b \<le> 127 \<Longrightarrow> utf8_decode_from utf8_initial (b # rest)
     = of_nat b # utf8_decode_from utf8_initial rest"
  by (simp add: utf8_decode_from.simps utf8_initial_def)

lemma decode2:
  assumes "2 \<le> a" "a < 32" "b < 64"
  shows "utf8_decode_from utf8_initial ((192 + a) # (128 + b) # rest)
     = code_units (a * 64 + b) @ utf8_decode_from utf8_initial rest"
  using assms by (simp add: utf8_decode_from.simps utf8_initial_def mod_facts)


lemma decode3:
  assumes "a < 16" "b < 64" "c < 64" "a = 0 \<longrightarrow> 32 \<le> b" "a = 13 \<longrightarrow> b < 32"
  shows "utf8_decode_from utf8_initial ((224 + a) # (128 + b) # (128 + c) # rest)
     = code_units (a * 4096 + b * 64 + c) @ utf8_decode_from utf8_initial rest"
proof -
  have e: "(a * 64 + b) * 64 + c = a * 4096 + b * 64 + c"
    by simp
  show ?thesis
    using assms by (auto simp add: utf8_decode_from.simps utf8_initial_def mod_facts e mult.commute)
qed

lemma decode4:
  assumes "a \<le> 4" "b < 64" "c < 64" "d < 64" "a = 0 \<longrightarrow> 16 \<le> b" "a = 4 \<longrightarrow> b < 16"
  shows "utf8_decode_from utf8_initial ((240 + a) # (128 + b) # (128 + c) # (128 + d) # rest)
     = code_units (a * 262144 + b * 4096 + c * 64 + d) @ utf8_decode_from utf8_initial rest"
proof -
  have e: "((a * 64 + b) * 64 + c) * 64 + d = a * 262144 + b * 4096 + c * 64 + d"
    by simp
  have a8: "a < 8" using assms(1) by simp
  show ?thesis
    using assms by (auto simp add: utf8_decode_from.simps utf8_initial_def mod_facts a8 e mult.commute)
qed

lemma div_4096: "(cp::nat) div 4096 = cp div 64 div 64"
proof -
  have "cp div 4096 = cp div (64 * 64)" by simp
  also have "\<dots> = cp div 64 div 64" by (rule div_mult2_eq)
  finally show ?thesis .
qed

lemma div_262144: "(cp::nat) div 262144 = cp div 64 div 64 div 64"
proof -
  have "cp div 262144 = cp div (4096 * 64)" by simp
  also have "\<dots> = cp div 4096 div 64" by (rule div_mult2_eq)
  finally show ?thesis by (simp add: div_4096)
qed

lemma decode_encode_1:
  assumes "cp < 128"
  shows "utf8_decode_from utf8_initial (encode_code_point cp @ rest)
           = code_units cp @ utf8_decode_from utf8_initial rest"
  using assms by (simp add: encode_code_point_def decode1 code_units_def)


lemma decode_encode_2:
  assumes "128 \<le> cp" "cp < 2048"
  shows "utf8_decode_from utf8_initial (encode_code_point cp @ rest)
           = code_units cp @ utf8_decode_from utf8_initial rest"
proof -
  define a where "a = cp div 64"
  define b where "b = cp mod 64"
  have cp: "cp = a * 64 + b" by (simp add: a_def b_def)
  have b: "b < 64" by (simp add: b_def)
  have a: "2 \<le> a" "a < 32" using assms cp b by linarith+
  have "encode_code_point cp = [192 + a, 128 + b]"
    using assms by (simp add: encode_code_point_def a_def b_def)
  then show ?thesis
    using decode2 [OF a b, of rest] cp by simp
qed

lemma decode_encode_3:
  assumes "2048 \<le> cp" "cp < 65536" "\<not> (55296 \<le> cp \<and> cp \<le> 57343)"
  shows "utf8_decode_from utf8_initial (encode_code_point cp @ rest)
           = code_units cp @ utf8_decode_from utf8_initial rest"
proof -
  define q where "q = cp div 64"
  define c where "c = cp mod 64"
  define a where "a = q div 64"
  define b where "b = q mod 64"
  have cp: "cp = q * 64 + c" by (simp add: q_def c_def)
  have q: "q = a * 64 + b" by (simp add: a_def b_def)
  have c: "c < 64" by (simp add: c_def)
  have b: "b < 64" by (simp add: b_def)
  have a: "a < 16" using assms cp q b c by linarith
  have a0: "a = 0 \<longrightarrow> 32 \<le> b" using assms cp q b c by linarith
  have a13: "a = 13 \<longrightarrow> b < 32" using assms cp q b c by linarith
  have "encode_code_point cp = [224 + a, 128 + b, 128 + c]"
    using assms by (simp add: encode_code_point_def a_def b_def c_def q_def div_4096)
  moreover have "a * 4096 + b * 64 + c = cp"
    using cp q by simp
  ultimately show ?thesis
    using decode3 [OF a b c a0 a13, of rest] by simp
qed


lemma decode_encode_4:
  assumes "65536 \<le> cp" "cp < 1114112"
  shows "utf8_decode_from utf8_initial (encode_code_point cp @ rest)
           = code_units cp @ utf8_decode_from utf8_initial rest"
proof -
  define q where "q = cp div 64"
  define d where "d = cp mod 64"
  define p where "p = q div 64"
  define c where "c = q mod 64"
  define a where "a = p div 64"
  define b where "b = p mod 64"
  have cp: "cp = q * 64 + d" by (simp add: q_def d_def)
  have q: "q = p * 64 + c" by (simp add: p_def c_def)
  have p: "p = a * 64 + b" by (simp add: a_def b_def)
  have d: "d < 64" by (simp add: d_def)
  have c: "c < 64" by (simp add: c_def)
  have b: "b < 64" by (simp add: b_def)
  have a: "a \<le> 4" using assms cp q p b c d by linarith
  have a0: "a = 0 \<longrightarrow> 16 \<le> b" using assms cp q p b c d by linarith
  have a4: "a = 4 \<longrightarrow> b < 16" using assms cp q p b c d by linarith
  have "encode_code_point cp = [240 + a, 128 + b, 128 + c, 128 + d]"
    using assms
    by (simp add: encode_code_point_def a_def b_def c_def d_def p_def q_def div_4096 div_262144)
  moreover have "a * 262144 + b * 4096 + c * 64 + d = cp"
    using cp q p by simp
  ultimately show ?thesis
    using decode4 [OF a b c d a0 a4, of rest] by simp
qed

lemma decode_encode_code_point:
  assumes "cp < 1114112" "\<not> (55296 \<le> cp \<and> cp \<le> 57343)"
  shows "utf8_decode_from utf8_initial (encode_code_point cp @ rest)
           = code_units cp @ utf8_decode_from utf8_initial rest"
proof -
  consider "cp < 128" | "128 \<le> cp" "cp < 2048" | "2048 \<le> cp" "cp < 65536" | "65536 \<le> cp"
    by linarith
  then show ?thesis
  proof cases
    case 1
    then show ?thesis by (rule decode_encode_1)
  next
    case 2
    then show ?thesis by (rule decode_encode_2)
  next
    case 3
    then show ?thesis using assms(2) by (rule decode_encode_3)
  next
    case 4
    then show ?thesis using assms(1) by (rule decode_encode_4)
  qed
qed

lemma decode_replacement:
  "utf8_decode_from utf8_initial (replacement_bytes @ rest)
     = replacement_unit # utf8_decode_from utf8_initial rest"
  using decode_encode_code_point [of 65533 rest]
  by (simp add: encode_code_point_def replacement_bytes_def code_units_def replacement_unit_def)

lemma code_units_unit: "code_units (unat (c :: 16 word)) = [c]"
proof -
  have "unat c < 65536" using unsigned_less [of c] by simp
  then show ?thesis by (simp add: code_units_def)
qed

lemma surrogate_offsets:
  assumes "is_high_surrogate hi" "is_low_surrogate lo"
  obtains h l where "unat hi = 55296 + h" "h < 1024" "unat lo = 56320 + l" "l < 1024"
    "pair_code_point hi lo = 65536 + (h * 1024 + l)"
proof -
  have hb: "55296 \<le> unat hi" "unat hi \<le> 56319"
    using assms(1) by (simp_all add: is_high_surrogate_def)
  have lb: "56320 \<le> unat lo" "unat lo \<le> 57343"
    using assms(2) by (simp_all add: is_low_surrogate_def)
  define h where "h = unat hi - 55296"
  define l where "l = unat lo - 56320"
  have 1: "unat hi = 55296 + h" and 2: "h < 1024"
    using hb unfolding h_def by linarith+
  have 3: "unat lo = 56320 + l" and 4: "l < 1024"
    using lb unfolding l_def by linarith+
  have 5: "pair_code_point hi lo = 65536 + (h * 1024 + l)"
    by (simp add: pair_code_point_def h_def l_def)
  from 1 2 3 4 5 show thesis by (rule that)
qed

lemma code_units_pair:
  assumes "is_high_surrogate hi" "is_low_surrogate lo"
  shows "code_units (pair_code_point hi lo) = [hi, lo]"
proof -
  obtain h l where hi: "unat hi = 55296 + h" and h: "h < 1024"
    and lo: "unat lo = 56320 + l" and l: "l < 1024"
    and p: "pair_code_point hi lo = 65536 + (h * 1024 + l)"
    using assms by (rule surrogate_offsets)
  have "(h * 1024 + l) div 1024 = h" "(h * 1024 + l) mod 1024 = l"
    using l by simp_all
  then have "code_units (pair_code_point hi lo) = [of_nat (unat hi), of_nat (unat lo)]"
    by (simp add: p code_units_def hi lo)
  then show ?thesis by simp
qed

lemma pair_code_point_range:
  assumes "is_high_surrogate hi" "is_low_surrogate lo"
  shows "65536 \<le> pair_code_point hi lo" "pair_code_point hi lo < 1114112"
proof -
  obtain h l where h: "h < 1024" and l: "l < 1024"
    and p: "pair_code_point hi lo = 65536 + (h * 1024 + l)"
    using assms by (rule surrogate_offsets)
  show "65536 \<le> pair_code_point hi lo" using p by simp
  show "pair_code_point hi lo < 1114112" using p h l by linarith
qed

lemma not_surrogate_scalar:
  assumes "\<not> is_high_surrogate c" "\<not> is_low_surrogate c"
  shows "unat c < 1114112" "\<not> (55296 \<le> unat c \<and> unat c \<le> 57343)"
proof -
  have "unat c < 65536" using unsigned_less [of c] by simp
  then show "unat c < 1114112" by simp
  show "\<not> (55296 \<le> unat c \<and> unat c \<le> 57343)"
    using assms unfolding is_high_surrogate_def is_low_surrogate_def by linarith
qed

lemma decode_encode_unit:
  assumes "\<not> is_high_surrogate c" "\<not> is_low_surrogate c"
  shows "utf8_decode_from utf8_initial (encode_code_point (unat c) @ rest)
           = c # utf8_decode_from utf8_initial rest"
  using decode_encode_code_point [OF not_surrogate_scalar [OF assms], of rest]
  by (simp add: code_units_unit)

lemma decode_encode_pair:
  assumes "is_high_surrogate c" "is_low_surrogate d"
  shows "utf8_decode_from utf8_initial (encode_code_point (pair_code_point c d) @ rest)
           = c # d # utf8_decode_from utf8_initial rest"
proof -
  have "\<not> (55296 \<le> pair_code_point c d \<and> pair_code_point c d \<le> 57343)"
    using pair_code_point_range(1) [OF assms] by linarith
  then show ?thesis
    using decode_encode_code_point [OF pair_code_point_range(2) [OF assms], of rest]
    by (simp add: code_units_pair [OF assms])
qed

lemma decode_empty: "utf8_decode_from utf8_initial [] = []"
  by (simp add: utf8_decode_from.simps utf8_initial_def)

lemma utf8_roundtrip_from:
  "well_formed s \<Longrightarrow> utf8_decode_from utf8_initial (utf8_encode s) = s"
proof (induction s rule: utf8_encode.induct)
  case 1
  show ?case by (simp add: decode_empty)
next
  case (2 c)
  then have c: "\<not> is_high_surrogate c" "\<not> is_low_surrogate c"
    by simp_all
  show ?case
    using decode_encode_unit [OF c, of "[]"] c by (simp add: decode_empty)
next
  case (3 c d rest)
  show ?case
  proof (cases "is_high_surrogate c")
    case True
    with "3.prems" have d: "is_low_surrogate d" and r: "well_formed rest"
      by simp_all
    have "utf8_decode_from utf8_initial (utf8_encode rest) = rest"
      using "3.IH"(1) [OF True d r] .
    then show ?thesis
      using True d by (simp add: decode_encode_pair)
  next
    case False
    with "3.prems" have l: "\<not> is_low_surrogate c" and r: "well_formed (d # rest)"
      by simp_all
    have "utf8_decode_from utf8_initial (utf8_encode (d # rest)) = d # rest"
      using "3.IH"(4) [OF False l r] .
    then show ?thesis
      using False l by (simp add: decode_encode_unit)
  qed
qed

lemma utf8_roundtrip: "well_formed s \<Longrightarrow> utf8_decode (utf8_encode s) = s"
  by (simp add: utf8_decode_def utf8_roundtrip_from)

subsection \<open>Base64\<close>

lemma encode_code_point_bytes:
  assumes "cp < 1114112"
  shows "list_all (\<lambda>b. b < 256) (encode_code_point cp)"
proof -
  have 1: "cp < 2048 \<Longrightarrow> cp div 64 < 32"
    by (rule less_mult_imp_div_less) simp
  have 2: "cp < 65536 \<Longrightarrow> cp div 4096 < 16"
    by (rule less_mult_imp_div_less) simp
  have 3: "cp div 262144 < 16"
    using assms by (intro less_mult_imp_div_less) simp
  have m: "cp mod 64 < 64" "cp div 64 mod 64 < 64" "cp div 4096 mod 64 < 64"
    by simp_all
  show ?thesis
    using 1 2 3 m unfolding encode_code_point_def by (simp del: mod_less_divisor) linarith
qed


lemma utf8_encode_bytes: "list_all (\<lambda>b. b < 256) (utf8_encode s)"
proof (induction s rule: utf8_encode.induct)
  case 1
  show ?case by simp
next
  case (2 c)
  have "unat c < 65536" using unsigned_less [of c] by simp
  then have "list_all (\<lambda>b. b < 256) (encode_code_point (unat c))"
    by (intro encode_code_point_bytes) simp
  then show ?case by (simp add: replacement_bytes_def)
next
  case (3 c d rest)
  have "unat c < 65536" using unsigned_less [of c] by simp
  then have u: "list_all (\<lambda>b. b < 256) (encode_code_point (unat c))"
    by (intro encode_code_point_bytes) simp
  have p: "is_high_surrogate c \<Longrightarrow> is_low_surrogate d
             \<Longrightarrow> list_all (\<lambda>b. b < 256) (encode_code_point (pair_code_point c d))"
    by (intro encode_code_point_bytes pair_code_point_range)
  show ?case
    using "3.IH" u p by (simp add: replacement_bytes_def)
qed

lemma unat_small: "n < 65536 \<Longrightarrow> unat (of_nat n :: 16 word) = n"
  by (simp add: unat_of_nat)

lemma b64_value_char:
  assumes "v < 64"
  shows "b64_value (b64_char v) = Some v" and "b64_char v \<noteq> b64_pad"
proof -
  consider "v < 26" | "26 \<le> v" "v < 52" | "52 \<le> v" "v < 62" | "v = 62" | "v = 63"
    using assms by linarith
  then have "b64_value (b64_char v) = Some v \<and> unat (b64_char v) \<noteq> 61"
  proof cases
    case 1
    then have "unat (b64_char v) = 65 + v"
      by (simp add: b64_char_def unat_small del: of_nat_add)
    with 1 show ?thesis by (simp add: b64_value_def)
  next
    case 2
    then have "unat (b64_char v) = 71 + v"
      by (simp add: b64_char_def unat_small del: of_nat_add)
    with 2 show ?thesis by (simp add: b64_value_def)
  next
    case 3
    define w where "w = v - 4"
    have v: "v = w + 4" and w: "48 \<le> w" "w < 58"
      using 3 unfolding w_def by linarith+
    have "unat (b64_char (w + 4)) = w"
      using w by (simp add: b64_char_def unat_small del: of_nat_add)
    with w show ?thesis unfolding v by (simp add: b64_value_def)
  next
    case 4
    then have "unat (b64_char v) = 43"
      by (simp add: b64_char_def)
    with 4 show ?thesis by (simp add: b64_value_def)
  next
    case 5
    then have "unat (b64_char v) = 47"
      by (simp add: b64_char_def)
    with 5 show ?thesis by (simp add: b64_value_def)
  qed
  then show "b64_value (b64_char v) = Some v" and "b64_char v \<noteq> b64_pad"
    by (auto simp: b64_pad_def)
qed

lemma b64_sextets_char:
  "v < 64 \<Longrightarrow> b64_sextets (b64_char v # cs) = v # b64_sextets cs"
  by (simp add: b64_value_char)

lemma b64_sextets_pad: "b64_sextets (b64_pad # cs) = []"
  by simp

lemma sextet_bounds:
  fixes a :: nat
  assumes "a < 256"
  shows "a div 4 < 64" "a div 16 < 16" "a div 64 < 4" "a mod 4 * 16 < 64" "a mod 16 * 4 < 64"
proof -
  show "a div 4 < 64" using assms by (intro less_mult_imp_div_less) simp
  show "a div 16 < 16" using assms by (intro less_mult_imp_div_less) simp
  show "a div 64 < 4" using assms by (intro less_mult_imp_div_less) simp
  have "a mod 4 < 4" "a mod 16 < 16" by simp_all
  then show "a mod 4 * 16 < 64" "a mod 16 * 4 < 64" by linarith+
qed

lemma join_div_mod:
  fixes x y n :: nat
  assumes "y < n"
  shows "(x * n + y) div n = x" "(x * n + y) mod n = y"
  using assms by simp_all

lemma base64_roundtrip_sextets:
  "list_all (\<lambda>b. b < 256) bs \<Longrightarrow> b64_bytes (b64_sextets (base64_encode bs)) = bs"
proof (induction bs rule: base64_encode.induct)
  case 1
  show ?case by simp
next
  case (2 a)
  then have a: "a < 256" by simp
  have s: "b64_sextets (base64_encode [a]) = [a div 4, a mod 4 * 16]"
    using sextet_bounds [OF a]
    by (simp only: base64_encode.simps b64_sextets_char b64_sextets_pad)
  show ?case
    unfolding s by simp
next
  case (3 a b)
  then have a: "a < 256" and b: "b < 256" by simp_all
  have m: "a mod 4 * 16 + b div 16 < 64"
    using sextet_bounds(2) [OF b] mod_less_divisor [of 4 a] by linarith
  have s: "b64_sextets (base64_encode [a, b])
             = [a div 4, a mod 4 * 16 + b div 16, b mod 16 * 4]"
    using sextet_bounds [OF a] sextet_bounds [OF b] m
    by (simp only: base64_encode.simps b64_sextets_char b64_sextets_pad)
  show ?case
    unfolding s using sextet_bounds(2) [OF b]
    by (simp add: join_div_mod)
next
  case (4 a b c rest)
  then have a: "a < 256" and b: "b < 256" and c: "c < 256"
    and r: "list_all (\<lambda>b. b < 256) rest"
    by simp_all
  have m: "a mod 4 * 16 + b div 16 < 64" "b mod 16 * 4 + c div 64 < 64" "c mod 64 < 64"
    using sextet_bounds(2) [OF b] sextet_bounds(3) [OF c] mod_less_divisor [of 4 a]
      mod_less_divisor [of 16 b]
    by simp_all
  have s: "b64_sextets (base64_encode (a # b # c # rest))
             = a div 4 # (a mod 4 * 16 + b div 16) # (b mod 16 * 4 + c div 64) # c mod 64
               # b64_sextets (base64_encode rest)"
    using sextet_bounds(1) [OF a] m
    by (simp only: base64_encode.simps append.simps b64_sextets_char)
  show ?case
    unfolding s using sextet_bounds(2) [OF b] sextet_bounds(3) [OF c] "4.IH" [OF r]
    by (simp add: join_div_mod)
qed

lemma base64_roundtrip:
  "list_all (\<lambda>b. b < 256) bs \<Longrightarrow> base64_decode (base64_encode bs) = bs"
  by (simp add: base64_decode_def base64_roundtrip_sextets)

subsection \<open>The round trip\<close>

lemma decrypt_after_encrypt:
  assumes "well_formed t" and "\<forall>k \<in> set key. unat k < 128"
  shows "decryptXOR (encryptXOR t key) key = t"
proof -
  have wf: "well_formed (xor_loop t key 0 [])"
    using assms by (simp add: well_formed_xor_loop)
  have "utf8_decode (base64_decode (encryptXOR t key)) = xor_loop t key 0 []"
    unfolding encryptXOR_def
    by (simp add: base64_roundtrip utf8_encode_bytes utf8_roundtrip wf)
  then show ?thesis
    by (simp add: decryptXOR_def xor_loop_involution)
qed

text \<open>
  C9, amended. For every well-formed string (every surrogate is half of a pair) and
  every non-empty key whose code units are all below 128,
  \<^verbatim>\<open>_decryptXOR(_encryptXOR(text, key), key)\<close> is the text. The strings that
  \<^verbatim>\<open>secureStore\<close> encrypts are results of \<^verbatim>\<open>JSON.stringify\<close>.
\<close>

theorem xor_cipher_roundtrip:
  assumes "well_formed t" and "key \<noteq> []" and "\<forall>k \<in> set key. unat k < 128"
  shows "decryptXOR (encryptXOR t key) key = t"
  using assms(1,3) by (rule decrypt_after_encrypt)

theorem xor_cipher_roundtrip_witness:
  "well_formed [0xD83D, 0xDE00, 0xE9] \<and> [0x61, 0x7F :: 16 word] \<noteq> []
   \<and> unat (0x61 :: 16 word) < 128 \<and> unat (0x7F :: 16 word) < 128
   \<and> decryptXOR (encryptXOR [0xD83D, 0xDE00, 0xE9] [0x61, 0x7F]) [0x61, 0x7F]
       = [0xD83D, 0xDE00, 0xE9]"
proof -
  have w: "well_formed [0xD83D, 0xDE00, 0xE9]"
    by (simp add: is_high_surrogate_def is_low_surrogate_def)
  have k: "\<forall>k \<in> set [0x61, 0x7F :: 16 word]. unat k < 128"
    by simp
  show ?thesis
    using w k xor_cipher_roundtrip [OF w _ k] by simp
qed

text \<open>The cipher text of a lone surrogate is that of U+FFFD.\<close>

lemma lone_surrogate_encrypted:
  "encryptXOR [0xD800] [0x61] = [55, 55, 43, 57]"
  by (simp add: encryptXOR_def xor_loop_start key_code_def is_high_surrogate_def
        is_low_surrogate_def replacement_bytes_def b64_char_def)

text \<open>
  C9, as the specification states it, for every string: the text of the single code unit
  D800, a high surrogate without its partner, under the key \<^verbatim>\<open>a\<close>. The XOR gives
  D861, still a lone surrogate, which the buffer stores as the bytes of U+FFFD; the
  cipher text is \<^verbatim>\<open>77+9\<close>, and decryption returns the code unit FF9C.
\<close>

theorem xor_cipher_loses_lone_surrogate:
  "[0x61 :: 16 word] \<noteq> [] \<and> unat (0x61 :: 16 word) < 128
   \<and> decryptXOR (encryptXOR [0xD800] [0x61]) [0x61] = [0xFF9C]
   \<and> decryptXOR (encryptXOR [0xD800] [0x61]) [0x61] \<noteq> [0xD800]"
  by (simp add: lone_surrogate_encrypted decryptXOR_def base64_decode_def b64_value_def
        b64_pad_def utf8_decode_def utf8_decode_from.simps utf8_initial_def code_units_def
        replacement_unit_def xor_loop_start key_code_def)


subsection \<open>Storing and retrieving\<close>

lemma encode_code_point_nonempty: "encode_code_point cp \<noteq> []"
  by (simp add: encode_code_point_def)

lemma utf8_encode_nonempty: "s \<noteq> [] \<Longrightarrow> utf8_encode s \<noteq> []"
  by (induction s rule: utf8_encode.induct)
     (simp_all add: encode_code_point_nonempty replacement_bytes_def)

lemma base64_encode_nonempty: "bs \<noteq> [] \<Longrightarrow> base64_encode bs \<noteq> []"
  by (induction bs rule: base64_encode.induct) simp_all

lemma encryptXOR_nonempty:
  assumes "t \<noteq> []"
  shows "encryptXOR t key \<noteq> []"
proof -
  have "xor_loop t key 0 [] \<noteq> []"
    using assms length_xor_loop [of t key] by (metis length_0_conv)
  then show ?thesis
    by (simp add: encryptXOR_def utf8_encode_nonempty base64_encode_nonempty)
qed

text \<open>
  With a keychain and a storage that work, what \<^verbatim>\<open>_retrieveEncrypted\<close> decrypts is
  the text that \<^verbatim>\<open>_storeEncrypted\<close> encrypted, when that text is well formed and not
  empty, as every result of \<^verbatim>\<open>JSON.stringify\<close> is.
\<close>

lemma retrieve_after_store:
  assumes "well_formed json" and "json \<noteq> []"
    and "\<forall>k \<in> set encryptionKey. unat k < 128"
  shows "fst (storeEncrypted working_secure_env st encryptionKey key json) = Inr True
   \<and> retrieveEncrypted working_secure_env
         (snd (storeEncrypted working_secure_env st encryptionKey key json)) key
       = Inr (Some json)"
  using encryptXOR_nonempty [OF assms(2), of encryptionKey]
    decrypt_after_encrypt [OF assms(1,3)]
  by (simp add: storeEncrypted_def retrieveEncrypted_def working_secure_env_def
        working_storage_def Let_def update_conv')

section \<open>Properties of the API client\<close>











text \<open>
  Once the refresh has succeeded, \<^verbatim>\<open>isRefreshingToken\<close> is cleared while the chain
  still waits for the token: a response with status 401 that arrives then starts a
  second refresh.
\<close>

lemma unauthorized_between_refresh_and_token:
  "started (run initial_client_state
              [Unauthorized profile_request, RefreshSettled 0 (Some True),
               Unauthorized settings_request])
     = [AwaitingToken, AwaitingRefresh]"
  by (simp add: run_def initial_client_state_def profile_request_def settings_request_def
        Let_def)

text \<open>
  When \<^verbatim>\<open>refreshToken()\<close> is rejected, the requests that wait are rejected, the user is
  logged out, and \<^verbatim>\<open>isRefreshingToken\<close> stays set.
\<close>

lemma refresh_rejected:
  "run initial_client_state [Unauthorized profile_request, RefreshSettled 0 None]
     = initial_client_state\<lparr>isRefreshingToken := True, tokenRefreshPromise := Some 0,
          started := [Failed], promises := 1, rejected := [profile_request], logouts := 1\<rparr>"
  by (simp add: run_def initial_client_state_def profile_request_def fail_chain_def Let_def)




end
